theory Spec2Isabelle
  imports Main "HOL-Library.Sublist"
begin

section \<open>Python values used by the plot modules\<close>

text \<open>
  The two plot modules \<^verbatim>\<open>cpllog_timeseries.py\<close> and \<^verbatim>\<open>western_boundary.py\<close>
  build a table (\<^verbatim>\<open>plot_table\<close>) that is handed to a jinja2 template. The table is a list
  of rows; in \<^verbatim>\<open>CplLog\<close> a row is a list of tuples \<^verbatim>\<open>(column, link name, content)\<close>, in
  \<^verbatim>\<open>WesternBoundary\<close> it is a list of strings.

  Whatever can be raised while the table is built is a value of \<open>exception\<close>: indexing a
  list out of range raises \<^verbatim>\<open>IndexError\<close>; \<^verbatim>\<open>cesmEnvLib.checkFile\<close> is not part of these
  modules and may raise anything of its own, carried here as \<open>Raised\<close> with its message.
  Neither \<^verbatim>\<open>_create_html\<close> has a \<^verbatim>\<open>try\<close> around the loops, so an exception ends the call.
\<close>

datatype exception = IndexError | Raised string

text \<open>\<^verbatim>\<open>xs[i]\<close> for an index produced by \<^verbatim>\<open>range\<close> (never negative).\<close>

definition getitem :: "'a list \<Rightarrow> nat \<Rightarrow> exception + 'a" where
  "getitem xs i = (if i < length xs then Inr (xs ! i) else Inl IndexError)"

text \<open>\<^verbatim>\<open>sub in s\<close> on two \<^verbatim>\<open>str\<close> values: \<^verbatim>\<open>sub\<close> occurs in \<^verbatim>\<open>s\<close> as a contiguous run.\<close>

fun str_in :: "string \<Rightarrow> string \<Rightarrow> bool" where
  "str_in sub [] = (sub = [])"
| "str_in sub (c # cs) = (prefix sub (c # cs) \<or> str_in sub cs)"

text \<open>
  \<^verbatim>\<open>cesmEnvLib.checkFile(path, mode)\<close> returns the pair \<^verbatim>\<open>(rc, err_msg)\<close> or raises. It is
  the external collaborator of both modules and a parameter of the model.
\<close>

type_synonym checkFile = "string \<Rightarrow> string \<Rightarrow> exception + bool \<times> string"

type_synonym plot_tuple = "int \<times> string \<times> string"

text \<open>The third component of a tuple is the text shown in the cell.\<close>

definition content :: "plot_tuple \<Rightarrow> string" where
  "content t = snd (snd t)"


section \<open>The plot classes\<close>

text \<open>
  The attributes set by the two \<^verbatim>\<open>__init__\<close> methods. \<^verbatim>\<open>CplLog\<close> extends the attributes
  it shares with \<^verbatim>\<open>WesternBoundary\<close> (both derive from \<^verbatim>\<open>OceanDiagnosticPlot\<close>).
\<close>

record OceanDiagnosticPlot =
  expectedPlots :: "string list"
  name :: string
  shortname :: string
  template_file :: string

record CplLog = OceanDiagnosticPlot +
  labels :: "string list"
  linkNames :: "string list"
  ncl :: "string list"
  awkError :: bool
  tailError :: bool

definition CplLog_init :: CplLog where
  "CplLog_init =
     \<lparr> expectedPlots = [''cplheatbudget'', ''cplfwbudget''],
       name = ''CPL Surface Heat and Freshwater Flux Budget'',
       shortname = ''CPLLOG'',
       template_file = ''cpllog_timeseries.tmpl'',
       labels = [''Heat'', ''Freshwater''],
       linkNames = [''timeseries'', ''table''],
       ncl = [],
       awkError = False,
       tailError = False \<rparr>"

definition WesternBoundary_init :: OceanDiagnosticPlot where
  "WesternBoundary_init =
     \<lparr> expectedPlots = [''DWBC''],
       name = ''Western Boundary Currents'',
       shortname = ''DWBC'',
       template_file = ''western_boundary.tmpl'' \<rparr>"


section \<open>\<^verbatim>\<open>CplLog._create_html\<close>: the table\<close>

text \<open>\<^verbatim>\<open>num_cols = 3\<close> is a constant of the method, not derived from \<^verbatim>\<open>_linkNames\<close>.\<close>

definition num_cols :: nat where
  "num_cols = 3"

text \<open>
  The body of the inner loop for one \<^verbatim>\<open>j\<close>, on the row built so far:
  \<^verbatim>\<open>
  if 'timeseries' in self._linkNames[j]:
      img_file = '{0}.{1}'.format(plot_list[j], imgFormat)
      rc, err_msg = cesmEnvLib.checkFile('{0}/{1}'.format(workdir, img_file), 'read')
      if not rc:
          plot_tuple = (j+1, self._linkNames[j], '{0} - Error'.format(img_file))
      else:
          plot_tuple = (j+1, self._linkNames[j], img_file)
      plot_tuple_list.append(plot_tuple)
  elif 'table' in self._linkNames[j]:
      asc_file = '{0}.{1}'.format(plot_list[j], 'asc')
      ... the same with asc_file ...
  \<close>
  A link name with neither word appends nothing.
\<close>

definition column ::
  "CplLog \<Rightarrow> checkFile \<Rightarrow> string \<Rightarrow> string \<Rightarrow> nat \<Rightarrow> plot_tuple list \<Rightarrow> exception + plot_tuple list"
where
  "column self checkFile workdir imgFormat j plot_tuple_list =
     (case getitem (linkNames self) j of
        Inl e \<Rightarrow> Inl e
      | Inr linkName \<Rightarrow>
          if str_in ''timeseries'' linkName then
            (case getitem (expectedPlots self) j of
               Inl e \<Rightarrow> Inl e
             | Inr plot \<Rightarrow>
                 let img_file = plot @ ''.'' @ imgFormat in
                 (case checkFile (workdir @ ''/'' @ img_file) ''read'' of
                    Inl e \<Rightarrow> Inl e
                  | Inr (rc, err_msg) \<Rightarrow>
                      if \<not> rc
                      then Inr (plot_tuple_list @ [(int j + 1, linkName, img_file @ '' - Error'')])
                      else Inr (plot_tuple_list @ [(int j + 1, linkName, img_file)])))
          else if str_in ''table'' linkName then
            (case getitem (expectedPlots self) j of
               Inl e \<Rightarrow> Inl e
             | Inr plot \<Rightarrow>
                 let asc_file = plot @ ''.'' @ ''asc'' in
                 (case checkFile (workdir @ ''/'' @ asc_file) ''read'' of
                    Inl e \<Rightarrow> Inl e
                  | Inr (rc, err_msg) \<Rightarrow>
                      if \<not> rc
                      then Inr (plot_tuple_list @ [(int j + 1, linkName, asc_file @ '' - Error'')])
                      else Inr (plot_tuple_list @ [(int j + 1, linkName, asc_file)])))
          else Inr plot_tuple_list)"

text \<open>\<^verbatim>\<open>for j in range(num_cols - 1)\<close>, as a recursion over the indices still to visit.\<close>

fun columns ::
  "CplLog \<Rightarrow> checkFile \<Rightarrow> string \<Rightarrow> string \<Rightarrow> nat list \<Rightarrow> plot_tuple list \<Rightarrow> exception + plot_tuple list"
where
  "columns self checkFile workdir imgFormat [] plot_tuple_list = Inr plot_tuple_list"
| "columns self checkFile workdir imgFormat (j # js) plot_tuple_list =
     (case column self checkFile workdir imgFormat j plot_tuple_list of
        Inl e \<Rightarrow> Inl e
      | Inr plot_tuple_list' \<Rightarrow> columns self checkFile workdir imgFormat js plot_tuple_list')"

text \<open>
  The body of the outer loop for one \<^verbatim>\<open>i\<close>: the row starts with the label tuple
  \<^verbatim>\<open>(0, 'label', '{0}:'.format(self._labels[i]))\<close> and the inner loop appends to it.
  (The \<^verbatim>\<open>print\<close> of the finished row writes to standard output only.)
\<close>

definition row ::
  "CplLog \<Rightarrow> checkFile \<Rightarrow> string \<Rightarrow> string \<Rightarrow> nat \<Rightarrow> exception + plot_tuple list"
where
  "row self checkFile workdir imgFormat i =
     (case getitem (labels self) i of
        Inl e \<Rightarrow> Inl e
      | Inr label \<Rightarrow>
          columns self checkFile workdir imgFormat [0..<num_cols - 1]
            [(0, ''label'', label @ '':'')])"

text \<open>\<^verbatim>\<open>for i in range(len(self._labels))\<close>, appending each finished row to the table.\<close>

fun rows ::
  "CplLog \<Rightarrow> checkFile \<Rightarrow> string \<Rightarrow> string \<Rightarrow> nat list \<Rightarrow> plot_tuple list list
     \<Rightarrow> exception + plot_tuple list list"
where
  "rows self checkFile workdir imgFormat [] plot_table = Inr plot_table"
| "rows self checkFile workdir imgFormat (i # is) plot_table =
     (case row self checkFile workdir imgFormat i of
        Inl e \<Rightarrow> Inl e
      | Inr plot_tuple_list \<Rightarrow>
          rows self checkFile workdir imgFormat is (plot_table @ [plot_tuple_list]))"

text \<open>
  The value of \<^verbatim>\<open>plot_table\<close> when the loops of \<^verbatim>\<open>CplLog._create_html\<close> are done. The
  method then passes it to the jinja2 template with the title and
  \<^verbatim>\<open>num_rows = len(self._labels)\<close>; the template and its rendering are outside these
  modules.
\<close>

definition CplLog_plot_table ::
  "CplLog \<Rightarrow> checkFile \<Rightarrow> string \<Rightarrow> string \<Rightarrow> exception + plot_tuple list list"
where
  "CplLog_plot_table self checkFile workdir imgFormat =
     rows self checkFile workdir imgFormat [0..<length (labels self)] []"


section \<open>\<^verbatim>\<open>WesternBoundary._create_html\<close>: the table\<close>

text \<open>
  \<^verbatim>\<open>
  for plot_file in self._expectedPlots:
      img_file = '{0}.{1}'.format(plot_file, imgFormat)
      rc, err_msg = cesmEnvLib.checkFile('{0}/{1}'.format(workdir, img_file), 'read')
      if not rc:
          plot_list.append('{0} - Error'.format(plot_file))
      else:
          plot_list.append(plot_file)
  plot_table.append(plot_list)
  \<close>
  The cells hold \<^verbatim>\<open>plot_file\<close>, the name without the extension; the template is given
  \<^verbatim>\<open>imgFormat\<close> separately.
\<close>

fun plots ::
  "checkFile \<Rightarrow> string \<Rightarrow> string \<Rightarrow> string list \<Rightarrow> string list \<Rightarrow> exception + string list"
where
  "plots checkFile workdir imgFormat [] plot_list = Inr plot_list"
| "plots checkFile workdir imgFormat (plot_file # rest) plot_list =
     (let img_file = plot_file @ ''.'' @ imgFormat in
      case checkFile (workdir @ ''/'' @ img_file) ''read'' of
        Inl e \<Rightarrow> Inl e
      | Inr (rc, err_msg) \<Rightarrow>
          if \<not> rc
          then plots checkFile workdir imgFormat rest (plot_list @ [plot_file @ '' - Error''])
          else plots checkFile workdir imgFormat rest (plot_list @ [plot_file]))"

definition WesternBoundary_plot_table ::
  "OceanDiagnosticPlot \<Rightarrow> checkFile \<Rightarrow> string \<Rightarrow> string \<Rightarrow> exception + string list list"
where
  "WesternBoundary_plot_table self checkFile workdir imgFormat =
     (case plots checkFile workdir imgFormat (expectedPlots self) [] of
        Inl e \<Rightarrow> Inl e
      | Inr plot_list \<Rightarrow> Inr ([] @ [plot_list]))"


section \<open>The substring test\<close>

text \<open>\<open>str_in\<close> decides whether the first string occurs in the second as a contiguous run.\<close>

lemma str_in_sublist: "str_in sub s = sublist sub s"
  by (induction s) (simp_all add: sublist_Cons_right)

lemma str_in_iff: "str_in sub s \<longleftrightarrow> (\<exists>before after. s = before @ sub @ after)"
  by (simp add: str_in_sublist sublist_def)


section \<open>The loops in closed form\<close>

text \<open>
  The inner loop visits the two indices \<open>0\<close> and \<open>1\<close>, whatever the length of
  \<^verbatim>\<open>_linkNames\<close> is.
\<close>

lemma upt_cols: "[0..<num_cols - 1] = [0, 1]"
  by (simp add: num_cols_def upt_rec)

text \<open>One pass of the loop body only appends to the row it is given.\<close>

lemma column_acc:
  "column self checkFile workdir imgFormat j acc =
     (case column self checkFile workdir imgFormat j [] of
        Inl e \<Rightarrow> Inl e | Inr cs \<Rightarrow> Inr (acc @ cs))"
  by (simp add: column_def Let_def split: sum.splits prod.splits)

lemma columns_two:
  "columns self checkFile workdir imgFormat [0..<num_cols - 1] acc =
     (case column self checkFile workdir imgFormat 0 [] of
        Inl e \<Rightarrow> Inl e
      | Inr c0 \<Rightarrow>
          (case column self checkFile workdir imgFormat 1 [] of
             Inl e \<Rightarrow> Inl e
           | Inr c1 \<Rightarrow> Inr (acc @ c0 @ c1)))"
proof (cases "column self checkFile workdir imgFormat 0 []")
  case (Inl e)
  then show ?thesis
    using column_acc [of self checkFile workdir imgFormat 0 acc]
    unfolding upt_cols by simp
next
  case (Inr c0)
  then have "column self checkFile workdir imgFormat 0 acc = Inr (acc @ c0)"
    using column_acc [of self checkFile workdir imgFormat 0 acc] by simp
  then show ?thesis
    using Inr column_acc [of self checkFile workdir imgFormat 1 "acc @ c0"]
    unfolding upt_cols by (simp split: sum.splits)
qed

lemma row_eq:
  "row self checkFile workdir imgFormat i =
     (if i < length (labels self) then
        (case columns self checkFile workdir imgFormat [0..<num_cols - 1] [] of
           Inl e \<Rightarrow> Inl e
         | Inr cs \<Rightarrow> Inr ((0, ''label'', labels self ! i @ '':'') # cs))
      else Inl IndexError)"
  unfolding row_def getitem_def columns_two [of _ _ _ _ "[_]"] columns_two [of _ _ _ _ "[]"]
  by (simp split: sum.splits)

text \<open>
  Every row runs the same inner loop, so the outer loop fails at its first row or not at
  all, and the rows it appends differ in the label only.
\<close>

lemma rows_eq:
  assumes "\<forall>i\<in>set is. i < length (labels self)"
  shows "rows self checkFile workdir imgFormat is acc =
     (if is = [] then Inr acc
      else case columns self checkFile workdir imgFormat [0..<num_cols - 1] [] of
             Inl e \<Rightarrow> Inl e
           | Inr cs \<Rightarrow>
               Inr (acc @ map (\<lambda>i. (0, ''label'', labels self ! i @ '':'') # cs) is))"
  using assms
proof (induction "is" arbitrary: acc)
  case Nil
  show ?case by simp
next
  case (Cons i "is")
  then show ?case
    unfolding rows.simps row_eq by (simp split: sum.splits)
qed

lemma plot_table_eq:
  "CplLog_plot_table self checkFile workdir imgFormat =
     (if labels self = [] then Inr []
      else case columns self checkFile workdir imgFormat [0..<num_cols - 1] [] of
             Inl e \<Rightarrow> Inl e
           | Inr cs \<Rightarrow> Inr (map (\<lambda>l. (0, ''label'', l @ '':'') # cs) (labels self)))"
proof -
  have "map (\<lambda>i. (0::int, ''label'', labels self ! i @ '':'') # cs) [0..<length (labels self)]
          = map (\<lambda>l. (0, ''label'', l @ '':'') # cs) (labels self)" for cs :: "plot_tuple list"
    by (rule nth_equalityI) simp_all
  then show ?thesis
    unfolding CplLog_plot_table_def by (subst rows_eq) (simp_all split: sum.splits)
qed

lemma plot_table_Inr:
  assumes "CplLog_plot_table self checkFile workdir imgFormat = Inr table"
  shows "(labels self = [] \<and> table = []) \<or>
     (\<exists>c0 c1. column self checkFile workdir imgFormat 0 [] = Inr c0 \<and>
        column self checkFile workdir imgFormat 1 [] = Inr c1 \<and>
        table = map (\<lambda>l. (0, ''label'', l @ '':'') # c0 @ c1) (labels self))"
  using assms unfolding plot_table_eq columns_two
  by (auto split: if_splits sum.splits)

text \<open>What one pass of the loop body appends when it does not raise.\<close>

lemma column_Inr:
  assumes "column self checkFile workdir imgFormat j [] = Inr cs"
  shows "j < length (linkNames self) \<and>
     (if str_in ''timeseries'' (linkNames self ! j) \<or> str_in ''table'' (linkNames self ! j)
      then j < length (expectedPlots self) \<and>
           (\<exists>file rc msg.
              file = expectedPlots self ! j @ ''.'' @
                (if str_in ''timeseries'' (linkNames self ! j) then imgFormat else ''asc'') \<and>
              checkFile (workdir @ ''/'' @ file) ''read'' = Inr (rc, msg) \<and>
              cs = [(int j + 1, linkNames self ! j, if rc then file else file @ '' - Error'')])
      else cs = [])"
  using assms
  by (auto simp add: column_def getitem_def Let_def split: if_splits sum.splits prod.splits)

text \<open>The same for a checker that answers every path and never raises.\<close>

lemma column_answer:
  "column self (\<lambda>path mode. Inr (fileExists path, err_msg path)) workdir imgFormat j [] =
     (if j < length (linkNames self) then
        if str_in ''timeseries'' (linkNames self ! j) \<or> str_in ''table'' (linkNames self ! j) then
          if j < length (expectedPlots self) then
            Inr [(int j + 1, linkNames self ! j,
                  let file = expectedPlots self ! j @ ''.'' @
                        (if str_in ''timeseries'' (linkNames self ! j) then imgFormat else ''asc'')
                  in if fileExists (workdir @ ''/'' @ file) then file else file @ '' - Error'')]
          else Inl IndexError
        else Inr []
      else Inl IndexError)"
  by (simp add: column_def getitem_def Let_def)

text \<open>The \<^verbatim>\<open>WesternBoundary\<close> loop for a checker that answers every path.\<close>

lemma plots_answer:
  "plots (\<lambda>path mode. Inr (fileExists path, err_msg path)) workdir imgFormat ps acc =
     Inr (acc @ map (\<lambda>plot_file.
                       if fileExists (workdir @ ''/'' @ plot_file @ ''.'' @ imgFormat)
                       then plot_file else plot_file @ '' - Error'') ps)"
  by (induction ps arbitrary: acc) (simp_all add: Let_def)

text \<open>
  Only the first component of the checker's answer at mode \<^verbatim>\<open>'read'\<close> (or the exception
  it raises) reaches the table; \<^verbatim>\<open>err_msg\<close> is dropped.
\<close>

lemma column_cong:
  assumes "\<forall>path. map_sum id fst (chk1 path ''read'') = map_sum id fst (chk2 path ''read'')"
  shows "column self chk1 workdir imgFormat j acc = column self chk2 workdir imgFormat j acc"
proof -
  have same: "(case chk1 path ''read'' of Inl e \<Rightarrow> Inl e | Inr (rc, err_msg) \<Rightarrow> g rc)
      = (case chk2 path ''read'' of Inl e \<Rightarrow> Inl e | Inr (rc, err_msg) \<Rightarrow> g rc)"
    for path and g :: "bool \<Rightarrow> exception + plot_tuple list"
    using assms [rule_format, of path]
    by (cases "chk1 path ''read''"; cases "chk2 path ''read''") auto
  show ?thesis
    unfolding column_def Let_def
    by (simp add: same split: sum.splits)
qed

lemma columns_cong:
  assumes "\<forall>path. map_sum id fst (chk1 path ''read'') = map_sum id fst (chk2 path ''read'')"
  shows "columns self chk1 workdir imgFormat js acc = columns self chk2 workdir imgFormat js acc"
  by (induction js arbitrary: acc)
     (simp_all add: column_cong [of chk1 chk2, OF assms] split: sum.splits)

lemma plots_cong:
  assumes "\<forall>path. map_sum id fst (chk1 path ''read'') = map_sum id fst (chk2 path ''read'')"
  shows "plots chk1 workdir imgFormat ps acc = plots chk2 workdir imgFormat ps acc"
proof (induction ps arbitrary: acc)
  case Nil
  show ?case by simp
next
  case (Cons p ps)
  show ?case
    using assms [rule_format, of "workdir @ ''/'' @ p @ ''.'' @ imgFormat"]
    by (cases "chk1 (workdir @ ''/'' @ p @ ''.'' @ imgFormat) ''read''";
        cases "chk2 (workdir @ ''/'' @ p @ ''.'' @ imgFormat) ''read''")
       (auto simp add: Cons.IH)
qed


text \<open>Every cell a pass of the loop body appends, spelled out.\<close>

lemma column_cell:
  assumes "column self checkFile workdir imgFormat j [] = Inr cs" and "cell \<in> set cs"
  shows "j < length (linkNames self) \<and> j < length (expectedPlots self) \<and>
     (str_in ''timeseries'' (linkNames self ! j) \<or> str_in ''table'' (linkNames self ! j)) \<and>
     (\<exists>rc msg.
        checkFile (workdir @ ''/'' @ expectedPlots self ! j @ ''.'' @
            (if str_in ''timeseries'' (linkNames self ! j) then imgFormat else ''asc'')) ''read''
          = Inr (rc, msg) \<and>
        cell = (int j + 1, linkNames self ! j,
                if rc
                then expectedPlots self ! j @ ''.'' @
                  (if str_in ''timeseries'' (linkNames self ! j) then imgFormat else ''asc'')
                else (expectedPlots self ! j @ ''.'' @
                  (if str_in ''timeseries'' (linkNames self ! j) then imgFormat else ''asc''))
                  @ '' - Error''))"
proof -
  let ?k = "linkNames self ! j"
  let ?file = "expectedPlots self ! j @ ''.'' @ (if str_in ''timeseries'' ?k then imgFormat else ''asc'')"
  from column_Inr [OF assms(1)] have len: "j < length (linkNames self)"
    by (rule conjunct1)
  have known: "str_in ''timeseries'' ?k \<or> str_in ''table'' ?k"
  proof (rule ccontr)
    assume "\<not> ?thesis"
    with column_Inr [OF assms(1)] have "cs = []" by (simp only: if_False)
    with assms(2) show False by simp
  qed
  with column_Inr [OF assms(1)] obtain rc msg where
    plot: "j < length (expectedPlots self)" and
    chk: "checkFile (workdir @ ''/'' @ ?file) ''read'' = Inr (rc, msg)" and
    cs: "cs = [(int j + 1, ?k, if rc then ?file else ?file @ '' - Error'')]"
    by (simp only: if_True) blast
  from cs assms(2) have "cell = (int j + 1, ?k, if rc then ?file else ?file @ '' - Error'')"
    by (simp only: list.set singletonD)
  with len plot known chk show ?thesis
    by blast
qed

text \<open>
  Every cell after the label cell of a returned row comes from one of the two passes, and a
  pass over a link name with one of the two words leaves its cell in every row.
\<close>

lemma cell_in_table:
  assumes "CplLog_plot_table self checkFile workdir imgFormat = Inr table"
    and "r \<in> set table" and "cell \<in> set (tl r)"
  shows "\<exists>j<2. j < length (linkNames self) \<and> j < length (expectedPlots self) \<and>
     (str_in ''timeseries'' (linkNames self ! j) \<or> str_in ''table'' (linkNames self ! j)) \<and>
     (\<exists>rc msg.
        checkFile (workdir @ ''/'' @ expectedPlots self ! j @ ''.'' @
            (if str_in ''timeseries'' (linkNames self ! j) then imgFormat else ''asc'')) ''read''
          = Inr (rc, msg) \<and>
        cell = (int j + 1, linkNames self ! j,
                if rc
                then expectedPlots self ! j @ ''.'' @
                  (if str_in ''timeseries'' (linkNames self ! j) then imgFormat else ''asc'')
                else (expectedPlots self ! j @ ''.'' @
                  (if str_in ''timeseries'' (linkNames self ! j) then imgFormat else ''asc''))
                  @ '' - Error''))"
    (is "\<exists>j<2. ?P j")
proof -
  from plot_table_Inr [OF assms(1)] assms(2) obtain c0 c1 where
    c0: "column self checkFile workdir imgFormat 0 [] = Inr c0" and
    c1: "column self checkFile workdir imgFormat 1 [] = Inr c1" and
    t: "table = map (\<lambda>l. (0, ''label'', l @ '':'') # c0 @ c1) (labels self)"
    by auto
  from t assms(2,3) have "cell \<in> set c0 \<or> cell \<in> set c1"
    by auto
  then show ?thesis
  proof
    assume "cell \<in> set c0"
    from column_cell [OF c0 this] have "?P 0" .
    then show ?thesis by (intro exI [of _ 0]) simp
  next
    assume "cell \<in> set c1"
    from column_cell [OF c1 this] have "?P 1" .
    then show ?thesis by (intro exI [of _ 1]) simp
  qed
qed

lemma column_in_table:
  assumes "CplLog_plot_table self checkFile workdir imgFormat = Inr table"
    and "r \<in> set table" and "j < 2"
    and "str_in ''timeseries'' (linkNames self ! j) \<or> str_in ''table'' (linkNames self ! j)"
  shows "\<exists>cell\<in>set (tl r). fst cell = int j + 1"
proof -
  from plot_table_Inr [OF assms(1)] assms(2) obtain c0 c1 where
    c0: "column self checkFile workdir imgFormat 0 [] = Inr c0" and
    c1: "column self checkFile workdir imgFormat 1 [] = Inr c1" and
    t: "table = map (\<lambda>l. (0, ''label'', l @ '':'') # c0 @ c1) (labels self)"
    by auto
  from t assms(2) have r: "set (tl r) = set c0 \<union> set c1"
    by auto
  from assms(3) have "j = 0 \<or> j = 1" by auto
  then show ?thesis
  proof
    assume "j = 0"
    with column_Inr [OF c0] assms(4) r show ?thesis by auto
  next
    assume "j = 1"
    with column_Inr [OF c1] assms(4) r show ?thesis by auto
  qed
qed

lemma row_head:
  assumes "CplLog_plot_table self checkFile workdir imgFormat = Inr table" and "r \<in> set table"
  shows "\<exists>l\<in>set (labels self). r = (0, ''label'', l @ '':'') # tl r"
  using plot_table_Inr [OF assms(1)] assms(2) by auto

text \<open>The \<^verbatim>\<open>WesternBoundary\<close> loop, cell by cell.\<close>

lemma plots_Inr:
  assumes "plots checkFile workdir imgFormat ps acc = Inr cells"
  shows "\<exists>cs. cells = acc @ cs \<and>
     list_all2 (\<lambda>plot_file cell. \<exists>rc msg.
        checkFile (workdir @ ''/'' @ plot_file @ ''.'' @ imgFormat) ''read'' = Inr (rc, msg) \<and>
        cell = (if rc then plot_file else plot_file @ '' - Error'')) ps cs"
proof -
  define R where "R = (\<lambda>plot_file cell. \<exists>rc msg.
        checkFile (workdir @ ''/'' @ plot_file @ ''.'' @ imgFormat) ''read'' = Inr (rc, msg) \<and>
        cell = (if rc then plot_file else plot_file @ '' - Error''))"
  from assms have "\<exists>cs. cells = acc @ cs \<and> list_all2 R ps cs"
  proof (induction ps arbitrary: acc)
    case Nil
    then show ?case by simp
  next
    case (Cons p ps)
    from Cons.prems obtain rc msg where
      chk: "checkFile (workdir @ ''/'' @ p @ ''.'' @ imgFormat) ''read'' = Inr (rc, msg)"
      by (cases "checkFile (workdir @ ''/'' @ p @ ''.'' @ imgFormat) ''read''")
         (auto simp add: Let_def)
    define c where "c = (if rc then p else p @ '' - Error'')"
    from Cons.prems chk have "plots checkFile workdir imgFormat ps (acc @ [c]) = Inr cells"
      by (simp add: Let_def c_def split: if_splits)
    from Cons.IH [OF this] obtain cs where cs: "cells = (acc @ [c]) @ cs" "list_all2 R ps cs"
      by blast
    from chk have "R p c"
      unfolding R_def c_def by blast
    with cs have "cells = acc @ (c # cs) \<and> list_all2 R (p # ps) (c # cs)"
      by simp
    then show ?case by blast
  qed
  then show ?thesis unfolding R_def .
qed

text \<open>A suffix that does not contain a character lies behind every occurrence of it.\<close>

lemma suffix_past_char:
  assumes "suffix s (a @ c # e)" and "c \<notin> set s"
  shows "suffix s e"
  using assms
  by (auto simp add: suffix_def append_eq_append_conv2 Cons_eq_append_conv)



text \<open>The \<^verbatim>\<open>WesternBoundary\<close> loop stops at the first check that raises.\<close>

lemma plots_fault:
  assumes "\<forall>p\<in>set before. \<exists>rc msg.
       checkFile (workdir @ ''/'' @ p @ ''.'' @ imgFormat) ''read'' = Inr (rc, msg)"
    and "checkFile (workdir @ ''/'' @ plot_file @ ''.'' @ imgFormat) ''read'' = Inl fault"
  shows "plots checkFile workdir imgFormat (before @ plot_file # rest) acc = Inl fault"
  using assms
proof (induction before arbitrary: acc)
  case Nil
  then show ?case by (simp add: Let_def)
next
  case (Cons p before)
  from Cons.prems(1) obtain rc msg where
    "checkFile (workdir @ ''/'' @ p @ ''.'' @ imgFormat) ''read'' = Inr (rc, msg)"
    by auto
  moreover from Cons.prems have
    "plots checkFile workdir imgFormat (before @ plot_file # rest) acc' = Inl fault" for acc'
    by (intro Cons.IH) simp_all
  ultimately show ?case
    by (simp add: Let_def)
qed


text \<open>
  With every queried file present the \<^verbatim>\<open>WesternBoundary\<close> loop copies the plot names,
  and a cell of \<^verbatim>\<open>CplLog\<close> holds its plain file name.
\<close>

lemma plots_present:
  assumes "\<forall>plot_file\<in>set ps. \<exists>msg.
       checkFile (workdir @ ''/'' @ plot_file @ ''.'' @ imgFormat) ''read'' = Inr (True, msg)"
  shows "plots checkFile workdir imgFormat ps acc = Inr (acc @ ps)"
  using assms
proof (induction ps arbitrary: acc)
  case Nil
  show ?case by simp
next
  case (Cons p ps)
  from Cons.prems obtain msg where
    "checkFile (workdir @ ''/'' @ p @ ''.'' @ imgFormat) ''read'' = Inr (True, msg)"
    by auto
  moreover from Cons.prems have "plots checkFile workdir imgFormat ps acc' = Inr (acc' @ ps)" for acc'
    by (intro Cons.IH) simp
  ultimately show ?case
    by (simp add: Let_def)
qed

lemma present_cell:
  assumes t: "CplLog_plot_table self checkFile workdir imgFormat = Inr table"
    and present: "\<forall>j<2. j < length (linkNames self) \<and> j < length (expectedPlots self) \<and>
          (str_in ''timeseries'' (linkNames self ! j) \<or> str_in ''table'' (linkNames self ! j))
        \<longrightarrow> (\<exists>msg. checkFile (workdir @ ''/'' @ expectedPlots self ! j @ ''.'' @
                  (if str_in ''timeseries'' (linkNames self ! j) then imgFormat else ''asc'')) ''read''
                = Inr (True, msg))"
    and r: "r \<in> set table" and c: "cell \<in> set (tl r)"
  shows "\<exists>j<2. cell = (int j + 1, linkNames self ! j,
                  expectedPlots self ! j @ ''.'' @
                    (if str_in ''timeseries'' (linkNames self ! j) then imgFormat else ''asc''))"
proof -
  from cell_in_table [OF t r c] obtain j rc m where
    j: "j < 2" "j < length (linkNames self)" "j < length (expectedPlots self)"
      "str_in ''timeseries'' (linkNames self ! j) \<or> str_in ''table'' (linkNames self ! j)" and
    chk: "checkFile (workdir @ ''/'' @ expectedPlots self ! j @ ''.'' @
            (if str_in ''timeseries'' (linkNames self ! j) then imgFormat else ''asc'')) ''read''
          = Inr (rc, m)" and
    cell: "cell = (int j + 1, linkNames self ! j,
                if rc
                then expectedPlots self ! j @ ''.'' @
                  (if str_in ''timeseries'' (linkNames self ! j) then imgFormat else ''asc'')
                else (expectedPlots self ! j @ ''.'' @
                  (if str_in ''timeseries'' (linkNames self ! j) then imgFormat else ''asc''))
                  @ '' - Error'')"
    by blast
  from present [rule_format, of j] j obtain msg where
    "checkFile (workdir @ ''/'' @ expectedPlots self ! j @ ''.'' @
            (if str_in ''timeseries'' (linkNames self ! j) then imgFormat else ''asc'')) ''read''
          = Inr (True, msg)"
    by blast
  with chk have rc by simp
  with cell have "cell = (int j + 1, linkNames self ! j,
                  expectedPlots self ! j @ ''.'' @
                    (if str_in ''timeseries'' (linkNames self ! j) then imgFormat else ''asc''))"
    by simp
  with j(1) show ?thesis by blast
qed


section \<open>Shape of the table\<close>

text \<open>
  Claim C1 says that every spec with labels, artifacts and column kinds of equal length
  gives \<^verbatim>\<open>len(labels)\<close> rows of \<^verbatim>\<open>len(columnKinds) + 1\<close> cells. The loop bound is the
  constant \<^verbatim>\<open>num_cols - 1 = 2\<close>: with three labels, three artifacts and three link names
  the rows have three cells, not four, and with one of each the second pass of the inner
  loop reads \<^verbatim>\<open>self._linkNames[1]\<close> and raises \<^verbatim>\<open>IndexError\<close>.
\<close>

theorem row_length_counterexample:
  "CplLog_plot_table
     (CplLog_init\<lparr>expectedPlots := [''a'', ''b'', ''c''], labels := [''A'', ''B'', ''C''],
        linkNames := [''timeseries'', ''table'', ''table'']\<rparr>)
     (\<lambda>path mode. Inr (True, [])) ''/w'' ''png''
   = Inr [[(0, ''label'', ''A:''), (1, ''timeseries'', ''a.png''), (2, ''table'', ''b.asc'')],
          [(0, ''label'', ''B:''), (1, ''timeseries'', ''a.png''), (2, ''table'', ''b.asc'')],
          [(0, ''label'', ''C:''), (1, ''timeseries'', ''a.png''), (2, ''table'', ''b.asc'')]]
   \<and> length [(0::int, ''label'', ''A:''), (1, ''timeseries'', ''a.png''), (2, ''table'', ''b.asc'')]
       \<noteq> length [''timeseries'', ''table'', ''table''] + 1
   \<and> CplLog_plot_table
       (CplLog_init\<lparr>expectedPlots := [''a''], labels := [''A''], linkNames := [''timeseries'']\<rparr>)
       (\<lambda>path mode. Inr (True, [])) ''/w'' ''png''
     = Inl IndexError"
proof -
  have "CplLog_plot_table
     (CplLog_init\<lparr>expectedPlots := [''a'', ''b'', ''c''], labels := [''A'', ''B'', ''C''],
        linkNames := [''timeseries'', ''table'', ''table'']\<rparr>)
     (\<lambda>path mode. Inr (True, [])) ''/w'' ''png''
   = Inr [[(0, ''label'', ''A:''), (1, ''timeseries'', ''a.png''), (2, ''table'', ''b.asc'')],
          [(0, ''label'', ''B:''), (1, ''timeseries'', ''a.png''), (2, ''table'', ''b.asc'')],
          [(0, ''label'', ''C:''), (1, ''timeseries'', ''a.png''), (2, ''table'', ''b.asc'')]]"
    by code_simp
  moreover have "CplLog_plot_table
       (CplLog_init\<lparr>expectedPlots := [''a''], labels := [''A''], linkNames := [''timeseries'']\<rparr>)
       (\<lambda>path mode. Inr (True, [])) ''/w'' ''png''
     = Inl IndexError"
    by code_simp
  ultimately show ?thesis by simp
qed

text \<open>
  Claim C1, as amended: for every spec with exactly two link names (the two columns the
  builder visits), each containing \<^verbatim>\<open>timeseries\<close> or \<^verbatim>\<open>table\<close>, and at least two
  expected plots, and for every \<^verbatim>\<open>fileExists\<close> function, the table has exactly
  \<^verbatim>\<open>len(labels)\<close> rows, and every row has exactly \<^verbatim>\<open>len(linkNames) + 1\<close> cells: the
  label cell, followed by one cell per link name carrying the column index \<open>j + 1\<close> and
  the link name.
\<close>

theorem table_shape:
  assumes "length (linkNames self) = 2"
    and "\<forall>j<2. str_in ''timeseries'' (linkNames self ! j) \<or> str_in ''table'' (linkNames self ! j)"
    and "2 \<le> length (expectedPlots self)"
  shows "\<exists>table.
     CplLog_plot_table self (\<lambda>path mode. Inr (fileExists path, err_msg path)) workdir imgFormat
       = Inr table \<and>
     length table = length (labels self) \<and>
     (\<forall>i<length table.
        length (table ! i) = length (linkNames self) + 1 \<and>
        table ! i ! 0 = (0, ''label'', labels self ! i @ '':'') \<and>
        (\<forall>j<length (linkNames self).
           fst (table ! i ! (j + 1)) = int j + 1 \<and>
           fst (snd (table ! i ! (j + 1))) = linkNames self ! j))"
proof -
  define t where "t = (\<lambda>j. let file = expectedPlots self ! j @ ''.'' @
                        (if str_in ''timeseries'' (linkNames self ! j) then imgFormat else ''asc'')
                  in if fileExists (workdir @ ''/'' @ file) then file else file @ '' - Error'')"
  have c: "column self (\<lambda>path mode. Inr (fileExists path, err_msg path)) workdir imgFormat j []
           = Inr [(int j + 1, linkNames self ! j, t j)]" if "j < 2" for j
    using that assms unfolding column_answer t_def by simp
  have "CplLog_plot_table self (\<lambda>path mode. Inr (fileExists path, err_msg path)) workdir imgFormat
      = Inr (map (\<lambda>l. [(0, ''label'', l @ '':''), (1, linkNames self ! 0, t 0),
                         (2, linkNames self ! 1, t 1)]) (labels self))"
    unfolding plot_table_eq columns_two using c [of 0] c [of 1] by simp
  moreover have "[(0, ''label'', l @ '':''), (1, linkNames self ! 0, t 0),
                  (2::int, linkNames self ! 1, t 1)] ! (j + 1)
                 = (int j + 1, linkNames self ! j, t j)" if "j < 2" for l j
    using that by (auto simp add: less_Suc_eq numeral_2_eq_2)
  ultimately show ?thesis
    using assms(1) by simp
qed

theorem table_shape_witness:
  "length (linkNames CplLog_init) = 2
   \<and> str_in ''timeseries'' (linkNames CplLog_init ! 0)
   \<and> str_in ''table'' (linkNames CplLog_init ! 1)
   \<and> 2 \<le> length (expectedPlots CplLog_init)
   \<and> (\<exists>table.
        CplLog_plot_table CplLog_init
          (\<lambda>path mode. Inr (path = ''/w/cplheatbudget.png'', [])) ''/w'' ''png'' = Inr table \<and>
        length table = length (labels CplLog_init) \<and>
        (\<forall>i<length table.
           length (table ! i) = length (linkNames CplLog_init) + 1 \<and>
           table ! i ! 0 = (0, ''label'', labels CplLog_init ! i @ '':'') \<and>
           (\<forall>j<length (linkNames CplLog_init).
              fst (table ! i ! (j + 1)) = int j + 1 \<and>
              fst (snd (table ! i ! (j + 1))) = linkNames CplLog_init ! j)))"
proof -
  have h1: "length (linkNames CplLog_init) = 2"
    by (simp add: CplLog_init_def)
  have h2: "\<forall>j<2. str_in ''timeseries'' (linkNames CplLog_init ! j)
                \<or> str_in ''table'' (linkNames CplLog_init ! j)"
    by (simp add: CplLog_init_def less_Suc_eq numeral_2_eq_2)
  have h3: "2 \<le> length (expectedPlots CplLog_init)"
    by (simp add: CplLog_init_def)
  have k: "str_in ''timeseries'' (linkNames CplLog_init ! 0)"
    "str_in ''table'' (linkNames CplLog_init ! 1)"
    by (simp_all add: CplLog_init_def)
  show ?thesis
    using h1 h3 k
      table_shape [OF h1 h2 h3, of "\<lambda>path. path = ''/w/cplheatbudget.png''" "\<lambda>path. []" "''/w''" "''png''"]
    by blast
qed

text \<open>
  When a table is returned at all, for a checker that never raises: there is no label, or
  there are two link names to read and every one of the two that contains a known word
  has its expected plot.
\<close>

lemma table_returned_iff:
  "(\<exists>table. CplLog_plot_table self (\<lambda>path mode. Inr (fileExists path, err_msg path))
       workdir imgFormat = Inr table)
   \<longleftrightarrow> labels self = [] \<or>
       (2 \<le> length (linkNames self) \<and>
        (\<forall>j<2. str_in ''timeseries'' (linkNames self ! j) \<or> str_in ''table'' (linkNames self ! j)
           \<longrightarrow> j < length (expectedPlots self)))"
proof (cases "labels self = []")
  case True
  then show ?thesis
    unfolding plot_table_eq by simp
next
  case False
  have two: "(\<forall>j<2. P j) \<longleftrightarrow> P 0 \<and> P (Suc 0)" for P :: "nat \<Rightarrow> bool"
    by (auto simp add: less_Suc_eq numeral_2_eq_2)
  from False show ?thesis
    unfolding plot_table_eq columns_two column_answer two
    by (auto split: sum.splits if_splits)
qed

text \<open>
  \<^verbatim>\<open>WesternBoundary\<close> has neither labels nor link names: its table is always one row,
  with one cell per expected plot, when no check raises.
\<close>

lemma WesternBoundary_one_row:
  "\<exists>cells. WesternBoundary_plot_table self (\<lambda>path mode. Inr (fileExists path, err_msg path))
       workdir imgFormat = Inr [cells] \<and> length cells = length (expectedPlots self)"
  unfolding WesternBoundary_plot_table_def plots_answer by simp


section \<open>Rows and repeated calls\<close>

text \<open>
  Claim C9: two calls with the same object, working directory and image format, and with
  the checker giving the same answer for every path (the same \<^verbatim>\<open>rc\<close>, or the same
  exception), build equal tables, in \<^verbatim>\<open>CplLog\<close> and in \<^verbatim>\<open>WesternBoundary\<close>. The message
  the checker returns beside \<^verbatim>\<open>rc\<close> may differ: it is not used.
\<close>

theorem same_answers_same_table:
  assumes "\<forall>path. map_sum id fst (chk1 path ''read'') = map_sum id fst (chk2 path ''read'')"
  shows "CplLog_plot_table self chk1 workdir imgFormat = CplLog_plot_table self chk2 workdir imgFormat
     \<and> WesternBoundary_plot_table wb chk1 workdir imgFormat
         = WesternBoundary_plot_table wb chk2 workdir imgFormat"
  unfolding plot_table_eq WesternBoundary_plot_table_def
  by (simp add: columns_cong [of chk1 chk2, OF assms] plots_cong [of chk1 chk2, OF assms])

theorem same_answers_same_table_witness:
  "(\<forall>path. map_sum id fst ((\<lambda>p m. Inr (p = ''/w/cplheatbudget.png'', ''first call'')) path ''read'')
         = map_sum id fst ((\<lambda>p m. Inr (p = ''/w/cplheatbudget.png'', ''second call'')) path ''read''))
   \<and> CplLog_plot_table CplLog_init
        (\<lambda>p m. Inr (p = ''/w/cplheatbudget.png'', ''first call'')) ''/w'' ''png''
     = CplLog_plot_table CplLog_init
        (\<lambda>p m. Inr (p = ''/w/cplheatbudget.png'', ''second call'')) ''/w'' ''png''
   \<and> WesternBoundary_plot_table WesternBoundary_init
        (\<lambda>p m. Inr (p = ''/w/cplheatbudget.png'', ''first call'')) ''/w'' ''png''
     = WesternBoundary_plot_table WesternBoundary_init
        (\<lambda>p m. Inr (p = ''/w/cplheatbudget.png'', ''second call'')) ''/w'' ''png''"
proof -
  have h: "\<forall>path. map_sum id fst ((\<lambda>p m. Inr (p = ''/w/cplheatbudget.png'', ''first call'')) path ''read'')
         = map_sum id fst ((\<lambda>p m. Inr (p = ''/w/cplheatbudget.png'', ''second call'')) path ''read'')"
    by simp
  show ?thesis
    using h same_answers_same_table [OF h, of CplLog_init "''/w''" "''png''" WesternBoundary_init]
    by simp
qed

text \<open>
  Claim C10: in every table the builder returns there is one row per label, each row
  starts with its own label cell, and the cells after the label cell are the same in every
  row: the file names and the \<^verbatim>\<open>- Error\<close> marks are computed from the column index
  \<open>j\<close> alone (\<^verbatim>\<open>plot_list[j]\<close>, \<^verbatim>\<open>self._linkNames[j]\<close>) and never from the row index.
\<close>

theorem rows_differ_only_in_label:
  assumes "CplLog_plot_table self checkFile workdir imgFormat = Inr table"
  shows "length table = length (labels self) \<and>
     (\<forall>i<length table. \<forall>k<length table.
        table ! i \<noteq> [] \<and>
        hd (table ! i) = (0, ''label'', labels self ! i @ '':'') \<and>
        tl (table ! i) = tl (table ! k))"
  using plot_table_Inr [OF assms] by auto

theorem rows_differ_only_in_label_witness:
  "CplLog_plot_table CplLog_init (\<lambda>path mode. Inr (path = ''/w/cplheatbudget.png'', [])) ''/w'' ''png''
     = Inr [[(0, ''label'', ''Heat:''), (1, ''timeseries'', ''cplheatbudget.png''),
             (2, ''table'', ''cplfwbudget.asc - Error'')],
            [(0, ''label'', ''Freshwater:''), (1, ''timeseries'', ''cplheatbudget.png''),
             (2, ''table'', ''cplfwbudget.asc - Error'')]]
   \<and> length [[(0::int, ''label'', ''Heat:''), (1, ''timeseries'', ''cplheatbudget.png''),
             (2, ''table'', ''cplfwbudget.asc - Error'')],
            [(0, ''label'', ''Freshwater:''), (1, ''timeseries'', ''cplheatbudget.png''),
             (2, ''table'', ''cplfwbudget.asc - Error'')]] = length (labels CplLog_init)
   \<and> tl [(0::int, ''label'', ''Heat:''), (1, ''timeseries'', ''cplheatbudget.png''),
             (2, ''table'', ''cplfwbudget.asc - Error'')]
     = tl [(0, ''label'', ''Freshwater:''), (1, ''timeseries'', ''cplheatbudget.png''),
             (2, ''table'', ''cplfwbudget.asc - Error'')]"
proof -
  have t: "CplLog_plot_table CplLog_init
             (\<lambda>path mode. Inr (path = ''/w/cplheatbudget.png'', [])) ''/w'' ''png''
     = Inr [[(0, ''label'', ''Heat:''), (1, ''timeseries'', ''cplheatbudget.png''),
             (2, ''table'', ''cplfwbudget.asc - Error'')],
            [(0, ''label'', ''Freshwater:''), (1, ''timeseries'', ''cplheatbudget.png''),
             (2, ''table'', ''cplfwbudget.asc - Error'')]]"
    by code_simp
  show ?thesis
    using t rows_differ_only_in_label [OF t] by simp
qed


section \<open>What the cells hold\<close>

text \<open>
  Claim C4: in every row of a returned table, every cell after the label cell belongs to
  one of the two columns \<open>j < 2\<close>, carries \<open>j + 1\<close> and \<^verbatim>\<open>self._linkNames[j]\<close>, and its
  file name is made from \<^verbatim>\<open>plot_list[j]\<close> and the kind of the link name alone: the
  caller's \<^verbatim>\<open>imgFormat\<close> as extension when the link name contains \<^verbatim>\<open>timeseries\<close>, the
  fixed extension \<^verbatim>\<open>asc\<close> when it does not and contains \<^verbatim>\<open>table\<close>. The path checked is
  \<^verbatim>\<open>workdir/file\<close>, and the text recorded is the file name, or the file name followed by
  \<^verbatim>\<open>" - Error"\<close> when the check answered false. Conversely every such column has its
  cell in the row.
\<close>

theorem candidate_file_from_link_name:
  assumes "CplLog_plot_table self checkFile workdir imgFormat = Inr table" and "r \<in> set table"
  shows "(\<forall>cell\<in>set (tl r). \<exists>j<2. \<exists>file rc msg.
            j < length (linkNames self) \<and> j < length (expectedPlots self) \<and>
            (str_in ''timeseries'' (linkNames self ! j) \<and>
               file = expectedPlots self ! j @ ''.'' @ imgFormat \<or>
             \<not> str_in ''timeseries'' (linkNames self ! j) \<and> str_in ''table'' (linkNames self ! j) \<and>
               file = expectedPlots self ! j @ ''.'' @ ''asc'') \<and>
            checkFile (workdir @ ''/'' @ file) ''read'' = Inr (rc, msg) \<and>
            cell = (int j + 1, linkNames self ! j, if rc then file else file @ '' - Error''))
     \<and> (\<forall>j<2. str_in ''timeseries'' (linkNames self ! j) \<or> str_in ''table'' (linkNames self ! j)
            \<longrightarrow> (\<exists>cell\<in>set (tl r). fst cell = int j + 1))"
proof (intro conjI ballI allI impI)
  fix cell
  assume "cell \<in> set (tl r)"
  from cell_in_table [OF assms this] obtain j rc msg where
    j: "j < 2" "j < length (linkNames self)" "j < length (expectedPlots self)" and
    known: "str_in ''timeseries'' (linkNames self ! j) \<or> str_in ''table'' (linkNames self ! j)" and
    chk: "checkFile (workdir @ ''/'' @ expectedPlots self ! j @ ''.'' @
            (if str_in ''timeseries'' (linkNames self ! j) then imgFormat else ''asc'')) ''read''
          = Inr (rc, msg)" and
    cell: "cell = (int j + 1, linkNames self ! j,
                if rc
                then expectedPlots self ! j @ ''.'' @
                  (if str_in ''timeseries'' (linkNames self ! j) then imgFormat else ''asc'')
                else (expectedPlots self ! j @ ''.'' @
                  (if str_in ''timeseries'' (linkNames self ! j) then imgFormat else ''asc''))
                  @ '' - Error'')"
    by blast
  define fname where "fname = expectedPlots self ! j @ ''.'' @
            (if str_in ''timeseries'' (linkNames self ! j) then imgFormat else ''asc'')"
  have kind: "str_in ''timeseries'' (linkNames self ! j) \<and>
               fname = expectedPlots self ! j @ ''.'' @ imgFormat \<or>
             \<not> str_in ''timeseries'' (linkNames self ! j) \<and> str_in ''table'' (linkNames self ! j) \<and>
               fname = expectedPlots self ! j @ ''.'' @ ''asc''"
    using known unfolding fname_def by (cases "str_in ''timeseries'' (linkNames self ! j)") simp_all
  from chk have chk': "checkFile (workdir @ ''/'' @ fname) ''read'' = Inr (rc, msg)"
    unfolding fname_def .
  from cell have cell': "cell = (int j + 1, linkNames self ! j, if rc then fname else fname @ '' - Error'')"
    unfolding fname_def .
  from j kind chk' cell'
  show "\<exists>j<2. \<exists>file rc msg.
            j < length (linkNames self) \<and> j < length (expectedPlots self) \<and>
            (str_in ''timeseries'' (linkNames self ! j) \<and>
               file = expectedPlots self ! j @ ''.'' @ imgFormat \<or>
             \<not> str_in ''timeseries'' (linkNames self ! j) \<and> str_in ''table'' (linkNames self ! j) \<and>
               file = expectedPlots self ! j @ ''.'' @ ''asc'') \<and>
            checkFile (workdir @ ''/'' @ file) ''read'' = Inr (rc, msg) \<and>
            cell = (int j + 1, linkNames self ! j, if rc then file else file @ '' - Error'')"
    by blast
next
  fix j :: nat
  assume "j < 2"
    and "str_in ''timeseries'' (linkNames self ! j) \<or> str_in ''table'' (linkNames self ! j)"
  then show "\<exists>cell\<in>set (tl r). fst cell = int j + 1"
    by (rule column_in_table [OF assms])
qed

theorem candidate_file_from_link_name_witness:
  "CplLog_plot_table CplLog_init (\<lambda>path mode. Inr (path = ''/w/cplheatbudget.png'', [])) ''/w'' ''png''
     = Inr [[(0, ''label'', ''Heat:''), (1, ''timeseries'', ''cplheatbudget.png''),
             (2, ''table'', ''cplfwbudget.asc - Error'')],
            [(0, ''label'', ''Freshwater:''), (1, ''timeseries'', ''cplheatbudget.png''),
             (2, ''table'', ''cplfwbudget.asc - Error'')]]
   \<and> (\<exists>j<2. \<exists>file rc msg.
         j < length (linkNames CplLog_init) \<and> j < length (expectedPlots CplLog_init) \<and>
         (str_in ''timeseries'' (linkNames CplLog_init ! j) \<and>
            file = expectedPlots CplLog_init ! j @ ''.'' @ ''png'' \<or>
          \<not> str_in ''timeseries'' (linkNames CplLog_init ! j) \<and>
            str_in ''table'' (linkNames CplLog_init ! j) \<and>
            file = expectedPlots CplLog_init ! j @ ''.'' @ ''asc'') \<and>
         (\<lambda>path mode. Inr (path = ''/w/cplheatbudget.png'', [])) (''/w'' @ ''/'' @ file) ''read''
           = Inr (rc, msg) \<and>
         (2, ''table'', ''cplfwbudget.asc - Error'')
           = (int j + 1, linkNames CplLog_init ! j, if rc then file else file @ '' - Error''))
   \<and> str_in ''timeseries'' (linkNames CplLog_init ! 0)
   \<and> (\<exists>cell\<in>set (tl [(0::int, ''label'', ''Freshwater:''), (1, ''timeseries'', ''cplheatbudget.png''),
             (2, ''table'', ''cplfwbudget.asc - Error'')]). fst cell = int 0 + 1)"
proof -
  have t: "CplLog_plot_table CplLog_init
             (\<lambda>path mode. Inr (path = ''/w/cplheatbudget.png'', [])) ''/w'' ''png''
     = Inr [[(0, ''label'', ''Heat:''), (1, ''timeseries'', ''cplheatbudget.png''),
             (2, ''table'', ''cplfwbudget.asc - Error'')],
            [(0, ''label'', ''Freshwater:''), (1, ''timeseries'', ''cplheatbudget.png''),
             (2, ''table'', ''cplfwbudget.asc - Error'')]]"
    by code_simp
  have r: "[(0::int, ''label'', ''Freshwater:''), (1, ''timeseries'', ''cplheatbudget.png''),
             (2, ''table'', ''cplfwbudget.asc - Error'')]
       \<in> set [[(0, ''label'', ''Heat:''), (1, ''timeseries'', ''cplheatbudget.png''),
             (2, ''table'', ''cplfwbudget.asc - Error'')],
            [(0, ''label'', ''Freshwater:''), (1, ''timeseries'', ''cplheatbudget.png''),
             (2, ''table'', ''cplfwbudget.asc - Error'')]]"
    by simp
  have k: "str_in ''timeseries'' (linkNames CplLog_init ! 0)"
    by (simp add: CplLog_init_def)
  note both = candidate_file_from_link_name [OF t r]
  from both [THEN conjunct1, rule_format, of "(2, ''table'', ''cplfwbudget.asc - Error'')"]
  have first: "\<exists>j<2. \<exists>file rc msg.
         j < length (linkNames CplLog_init) \<and> j < length (expectedPlots CplLog_init) \<and>
         (str_in ''timeseries'' (linkNames CplLog_init ! j) \<and>
            file = expectedPlots CplLog_init ! j @ ''.'' @ ''png'' \<or>
          \<not> str_in ''timeseries'' (linkNames CplLog_init ! j) \<and>
            str_in ''table'' (linkNames CplLog_init ! j) \<and>
            file = expectedPlots CplLog_init ! j @ ''.'' @ ''asc'') \<and>
         (\<lambda>path mode. Inr (path = ''/w/cplheatbudget.png'', [])) (''/w'' @ ''/'' @ file) ''read''
           = Inr (rc, msg) \<and>
         (2, ''table'', ''cplfwbudget.asc - Error'')
           = (int j + 1, linkNames CplLog_init ! j, if rc then file else file @ '' - Error'')"
    by simp
  from both [THEN conjunct2, rule_format, of 0] k
  have second: "\<exists>cell\<in>set (tl [(0::int, ''label'', ''Freshwater:''),
             (1, ''timeseries'', ''cplheatbudget.png''),
             (2, ''table'', ''cplfwbudget.asc - Error'')]). fst cell = int 0 + 1"
    by simp
  from t first k second show ?thesis
    by (intro conjI)
qed

text \<open>
  Claim C2 says that the cell of an absent file holds the candidate file name, extension
  included, followed by \<^verbatim>\<open>" - Error"\<close>. \<^verbatim>\<open>WesternBoundary\<close> checks \<^verbatim>\<open>DWBC.png\<close> but
  records \<^verbatim>\<open>plot_file\<close>, the name without the extension, in both branches.
\<close>

theorem missing_file_cell_counterexample:
  "WesternBoundary_plot_table WesternBoundary_init (\<lambda>path mode. Inr (False, ''no such file'')) ''/w'' ''png''
     = Inr [[''DWBC - Error'']]
   \<and> ''DWBC - Error'' \<noteq> ''DWBC.png'' @ '' - Error''"
  by code_simp

text \<open>
  Claim C2, as amended: in a table returned by \<^verbatim>\<open>CplLog\<close>, the cell of column \<open>j\<close>
  whose candidate file is absent holds exactly the candidate file name, extension
  included, followed by \<^verbatim>\<open>" - Error"\<close>; in the table returned by \<^verbatim>\<open>WesternBoundary\<close>,
  the cell of an expected plot whose image file is absent holds the plot name without
  the extension, followed by \<^verbatim>\<open>" - Error"\<close>.
\<close>

theorem missing_file_cell:
  "(CplLog_plot_table self checkFile workdir imgFormat = Inr table \<and> r \<in> set table \<and>
      (int j + 1, kind, shown) \<in> set r \<and>
      fname = expectedPlots self ! j @ ''.'' @ (if str_in ''timeseries'' kind then imgFormat else ''asc'') \<and>
      checkFile (workdir @ ''/'' @ fname) ''read'' = Inr (False, msg)
    \<longrightarrow> shown = fname @ '' - Error'')
   \<and> (WesternBoundary_plot_table wb checkFile workdir imgFormat = Inr wtable \<and>
      k < length (expectedPlots wb) \<and>
      checkFile (workdir @ ''/'' @ expectedPlots wb ! k @ ''.'' @ imgFormat) ''read'' = Inr (False, msg')
    \<longrightarrow> (\<exists>cells. wtable = [cells] \<and> length cells = length (expectedPlots wb) \<and>
           cells ! k = expectedPlots wb ! k @ '' - Error''))"
proof (intro conjI impI; elim conjE)
  assume t: "CplLog_plot_table self checkFile workdir imgFormat = Inr table" and r: "r \<in> set table"
    and c: "(int j + 1, kind, shown) \<in> set r"
    and f: "fname = expectedPlots self ! j @ ''.'' @ (if str_in ''timeseries'' kind then imgFormat else ''asc'')"
    and chk: "checkFile (workdir @ ''/'' @ fname) ''read'' = Inr (False, msg)"
  from row_head [OF t r] obtain l where "r = (0, ''label'', l @ '':'') # tl r"
    by blast
  with c have "(int j + 1, kind, shown) = (0, ''label'', l @ '':'') \<or> (int j + 1, kind, shown) \<in> set (tl r)"
    by (metis set_ConsD)
  then have "(int j + 1, kind, shown) \<in> set (tl r)"
    by auto
  from cell_in_table [OF t r this] obtain j' rc m where
    chk': "checkFile (workdir @ ''/'' @ expectedPlots self ! j' @ ''.'' @
            (if str_in ''timeseries'' (linkNames self ! j') then imgFormat else ''asc'')) ''read''
          = Inr (rc, m)" and
    cell: "(int j + 1, kind, shown) = (int j' + 1, linkNames self ! j',
                if rc
                then expectedPlots self ! j' @ ''.'' @
                  (if str_in ''timeseries'' (linkNames self ! j') then imgFormat else ''asc'')
                else (expectedPlots self ! j' @ ''.'' @
                  (if str_in ''timeseries'' (linkNames self ! j') then imgFormat else ''asc''))
                  @ '' - Error'')"
    by blast
  from cell have j': "j' = j"
    by simp
  from cell have kind: "kind = linkNames self ! j"
    unfolding j' by simp
  from chk' chk have "rc = False"
    unfolding j' f kind by simp
  with cell show "shown = fname @ '' - Error''"
    unfolding j' f kind by simp
next
  assume t: "WesternBoundary_plot_table wb checkFile workdir imgFormat = Inr wtable"
    and k: "k < length (expectedPlots wb)"
    and chk: "checkFile (workdir @ ''/'' @ expectedPlots wb ! k @ ''.'' @ imgFormat) ''read'' = Inr (False, msg')"
  from t obtain cells where
    p: "plots checkFile workdir imgFormat (expectedPlots wb) [] = Inr cells" and w: "wtable = [cells]"
    unfolding WesternBoundary_plot_table_def by (auto split: sum.splits)
  from plots_Inr [OF p] have all: "list_all2 (\<lambda>plot_file cell. \<exists>rc msg.
        checkFile (workdir @ ''/'' @ plot_file @ ''.'' @ imgFormat) ''read'' = Inr (rc, msg) \<and>
        cell = (if rc then plot_file else plot_file @ '' - Error'')) (expectedPlots wb) cells"
    by simp
  from list_all2_lengthD [OF all] have len: "length cells = length (expectedPlots wb)"
    by simp
  from list_all2_nthD [OF all k] chk have "cells ! k = expectedPlots wb ! k @ '' - Error''"
    by auto
  with w len show "\<exists>cells. wtable = [cells] \<and> length cells = length (expectedPlots wb) \<and>
           cells ! k = expectedPlots wb ! k @ '' - Error''"
    by blast
qed

theorem missing_file_cell_witness:
  "CplLog_plot_table CplLog_init (\<lambda>path mode. Inr (path = ''/w/cplheatbudget.png'', [])) ''/w'' ''png''
     = Inr [[(0, ''label'', ''Heat:''), (1, ''timeseries'', ''cplheatbudget.png''),
             (2, ''table'', ''cplfwbudget.asc - Error'')],
            [(0, ''label'', ''Freshwater:''), (1, ''timeseries'', ''cplheatbudget.png''),
             (2, ''table'', ''cplfwbudget.asc - Error'')]]
   \<and> ''cplfwbudget.asc'' = expectedPlots CplLog_init ! 1 @ ''.'' @
         (if str_in ''timeseries'' ''table'' then ''png'' else ''asc'')
   \<and> (\<lambda>path mode. Inr (path = ''/w/cplheatbudget.png'', [])) (''/w'' @ ''/'' @ ''cplfwbudget.asc'') ''read''
       = Inr (False, [])
   \<and> ''cplfwbudget.asc - Error'' = ''cplfwbudget.asc'' @ '' - Error''
   \<and> WesternBoundary_plot_table WesternBoundary_init
        (\<lambda>path mode. Inr (path = ''/w/cplheatbudget.png'', [])) ''/w'' ''png''
       = Inr [[''DWBC - Error'']]
   \<and> (\<exists>cells. [[''DWBC - Error'']] = [cells] \<and>
         length cells = length (expectedPlots WesternBoundary_init) \<and>
         cells ! 0 = expectedPlots WesternBoundary_init ! 0 @ '' - Error'')"
proof -
  have t: "CplLog_plot_table CplLog_init
             (\<lambda>path mode. Inr (path = ''/w/cplheatbudget.png'', [])) ''/w'' ''png''
     = Inr [[(0, ''label'', ''Heat:''), (1, ''timeseries'', ''cplheatbudget.png''),
             (2, ''table'', ''cplfwbudget.asc - Error'')],
            [(0, ''label'', ''Freshwater:''), (1, ''timeseries'', ''cplheatbudget.png''),
             (2, ''table'', ''cplfwbudget.asc - Error'')]]"
    by code_simp
  have f: "''cplfwbudget.asc'' = expectedPlots CplLog_init ! 1 @ ''.'' @
         (if str_in ''timeseries'' ''table'' then ''png'' else ''asc'')"
    by (simp add: CplLog_init_def)
  have c: "(\<lambda>path mode. Inr (path = ''/w/cplheatbudget.png'', []))
             (''/w'' @ ''/'' @ ''cplfwbudget.asc'') ''read'' = Inr (False, [])"
    by simp
  have w: "WesternBoundary_plot_table WesternBoundary_init
        (\<lambda>path mode. Inr (path = ''/w/cplheatbudget.png'', [])) ''/w'' ''png''
       = Inr [[''DWBC - Error'']]"
    by code_simp
  have wc: "(\<lambda>path mode. Inr (path = ''/w/cplheatbudget.png'', []))
             (''/w'' @ ''/'' @ expectedPlots WesternBoundary_init ! 0 @ ''.'' @ ''png'') ''read''
           = Inr (False, [])"
    by (simp add: WesternBoundary_init_def)
  have k: "0 < length (expectedPlots WesternBoundary_init)"
    by (simp add: WesternBoundary_init_def)
  note both = missing_file_cell
    [where self = CplLog_init and workdir = "''/w''" and imgFormat = "''png''"
       and checkFile = "\<lambda>path mode. Inr (path = ''/w/cplheatbudget.png'', [])"
       and table = "[[(0, ''label'', ''Heat:''), (1, ''timeseries'', ''cplheatbudget.png''),
             (2, ''table'', ''cplfwbudget.asc - Error'')],
            [(0, ''label'', ''Freshwater:''), (1, ''timeseries'', ''cplheatbudget.png''),
             (2, ''table'', ''cplfwbudget.asc - Error'')]]"
       and r = "[(0, ''label'', ''Freshwater:''), (1, ''timeseries'', ''cplheatbudget.png''),
             (2, ''table'', ''cplfwbudget.asc - Error'')]"
       and j = 1 and kind = "''table''" and shown = "''cplfwbudget.asc - Error''"
       and fname = "''cplfwbudget.asc''" and msg = "[]"
       and wb = WesternBoundary_init and wtable = "[[''DWBC - Error'']]" and k = 0 and msg' = "[]"]
  from both [THEN conjunct1] t f c
  have first: "''cplfwbudget.asc - Error'' = ''cplfwbudget.asc'' @ '' - Error''"
    by simp
  from both [THEN conjunct2] w wc k
  have second: "\<exists>cells. [[''DWBC - Error'']] = [cells] \<and>
         length cells = length (expectedPlots WesternBoundary_init) \<and>
         cells ! 0 = expectedPlots WesternBoundary_init ! 0 @ '' - Error''"
    by simp
  from t f c first w second show ?thesis
    by (intro conjI)
qed

text \<open>
  Claim C3 says that with every candidate file present every cell after the label holds
  the plain candidate file name and no \<^verbatim>\<open>" - Error"\<close> suffix appears in the table.
  \<^verbatim>\<open>WesternBoundary\<close> records the plot name without the extension (\<^verbatim>\<open>DWBC\<close>, not
  \<^verbatim>\<open>DWBC.png\<close>); and a file name of \<^verbatim>\<open>CplLog\<close> ends with the caller's \<^verbatim>\<open>imgFormat\<close>, so an
  image format that itself ends in \<^verbatim>\<open>" - Error"\<close> puts the suffix in the table.
\<close>

theorem all_files_present_counterexample:
  "WesternBoundary_plot_table WesternBoundary_init (\<lambda>path mode. Inr (True, [])) ''/w'' ''png''
     = Inr [[''DWBC'']]
   \<and> ''DWBC'' \<noteq> ''DWBC'' @ ''.'' @ ''png''
   \<and> CplLog_plot_table CplLog_init (\<lambda>path mode. Inr (True, [])) ''/w'' ''x - Error''
     = Inr [[(0, ''label'', ''Heat:''), (1, ''timeseries'', ''cplheatbudget.x - Error''),
             (2, ''table'', ''cplfwbudget.asc'')],
            [(0, ''label'', ''Freshwater:''), (1, ''timeseries'', ''cplheatbudget.x - Error''),
             (2, ''table'', ''cplfwbudget.asc'')]]
   \<and> suffix '' - Error'' (content (1, ''timeseries'', ''cplheatbudget.x - Error''))"
proof -
  have "WesternBoundary_plot_table WesternBoundary_init (\<lambda>path mode. Inr (True, [])) ''/w'' ''png''
     = Inr [[''DWBC'']]"
    by code_simp
  moreover have "''DWBC'' \<noteq> ''DWBC'' @ ''.'' @ ''png''"
    by simp
  moreover have "CplLog_plot_table CplLog_init (\<lambda>path mode. Inr (True, [])) ''/w'' ''x - Error''
     = Inr [[(0, ''label'', ''Heat:''), (1, ''timeseries'', ''cplheatbudget.x - Error''),
             (2, ''table'', ''cplfwbudget.asc'')],
            [(0, ''label'', ''Freshwater:''), (1, ''timeseries'', ''cplheatbudget.x - Error''),
             (2, ''table'', ''cplfwbudget.asc'')]]"
    by code_simp
  moreover have "suffix '' - Error'' (content (1, ''timeseries'', ''cplheatbudget.x - Error''))"
    by (simp add: content_def suffix_to_prefix)
  ultimately show ?thesis
    by (intro conjI)
qed

text \<open>
  Claim C3, as amended: if the checker answers true for each path that is queried (the
  candidate file of every visited column whose link name contains \<^verbatim>\<open>timeseries\<close> or
  \<^verbatim>\<open>table\<close>; for \<^verbatim>\<open>WesternBoundary\<close> the image file of every expected plot), whatever
  it answers elsewhere, then in a table returned by \<^verbatim>\<open>CplLog\<close> every cell after the label
  cell holds the plain candidate file name, and no cell of the table ends in
  \<^verbatim>\<open>" - Error"\<close> unless the image format itself does; and \<^verbatim>\<open>WesternBoundary\<close> returns
  the single row of the expected plot names as they are, without extension.
\<close>

theorem all_files_present:
  "(CplLog_plot_table self checkFile workdir imgFormat = Inr table \<and>
      (\<forall>j<2. j < length (linkNames self) \<and> j < length (expectedPlots self) \<and>
          (str_in ''timeseries'' (linkNames self ! j) \<or> str_in ''table'' (linkNames self ! j))
        \<longrightarrow> (\<exists>msg. checkFile (workdir @ ''/'' @ expectedPlots self ! j @ ''.'' @
                  (if str_in ''timeseries'' (linkNames self ! j) then imgFormat else ''asc'')) ''read''
                = Inr (True, msg)))
    \<longrightarrow>
      (\<forall>r\<in>set table. \<forall>cell\<in>set (tl r). \<exists>j<2.
          cell = (int j + 1, linkNames self ! j,
                  expectedPlots self ! j @ ''.'' @
                    (if str_in ''timeseries'' (linkNames self ! j) then imgFormat else ''asc''))) \<and>
      (\<not> suffix '' - Error'' imgFormat \<longrightarrow>
         (\<forall>r\<in>set table. \<forall>cell\<in>set r. \<not> suffix '' - Error'' (content cell))))
   \<and> ((\<forall>plot_file\<in>set (expectedPlots wb). \<exists>msg.
          checkFile (workdir @ ''/'' @ plot_file @ ''.'' @ imgFormat) ''read'' = Inr (True, msg))
    \<longrightarrow> WesternBoundary_plot_table wb checkFile workdir imgFormat = Inr [expectedPlots wb])"
proof (intro conjI impI ballI notI; (elim conjE)?)
  fix r cell
  assume "CplLog_plot_table self checkFile workdir imgFormat = Inr table"
    and "\<forall>j<2. j < length (linkNames self) \<and> j < length (expectedPlots self) \<and>
          (str_in ''timeseries'' (linkNames self ! j) \<or> str_in ''table'' (linkNames self ! j))
        \<longrightarrow> (\<exists>msg. checkFile (workdir @ ''/'' @ expectedPlots self ! j @ ''.'' @
                  (if str_in ''timeseries'' (linkNames self ! j) then imgFormat else ''asc'')) ''read''
                = Inr (True, msg))"
    and "r \<in> set table" and "cell \<in> set (tl r)"
  then show "\<exists>j<2. cell = (int j + 1, linkNames self ! j,
                  expectedPlots self ! j @ ''.'' @
                    (if str_in ''timeseries'' (linkNames self ! j) then imgFormat else ''asc''))"
    by (rule present_cell)
next
  fix r cell
  assume t: "CplLog_plot_table self checkFile workdir imgFormat = Inr table"
    and present: "\<forall>j<2. j < length (linkNames self) \<and> j < length (expectedPlots self) \<and>
          (str_in ''timeseries'' (linkNames self ! j) \<or> str_in ''table'' (linkNames self ! j))
        \<longrightarrow> (\<exists>msg. checkFile (workdir @ ''/'' @ expectedPlots self ! j @ ''.'' @
                  (if str_in ''timeseries'' (linkNames self ! j) then imgFormat else ''asc'')) ''read''
                = Inr (True, msg))"
    and no: "\<not> suffix '' - Error'' imgFormat"
    and r: "r \<in> set table" and c: "cell \<in> set r"
    and s: "suffix '' - Error'' (content cell)"
  from row_head [OF t r] obtain l where l: "r = (0, ''label'', l @ '':'') # tl r"
    by blast
  with c have "cell = (0, ''label'', l @ '':'') \<or> cell \<in> set (tl r)"
    by (metis set_ConsD)
  then have "suffix '' - Error'' imgFormat"
  proof
    assume "cell = (0, ''label'', l @ '':'')"
    with s have "suffix '' - Error'' (l @ CHR '':'' # [])"
      by (simp add: content_def)
    then have "suffix '' - Error'' []"
      by (rule suffix_past_char) simp
    then show ?thesis by simp
  next
    assume "cell \<in> set (tl r)"
    from present_cell [OF t present r this] obtain j where
      "cell = (int j + 1, linkNames self ! j,
                  expectedPlots self ! j @ ''.'' @
                    (if str_in ''timeseries'' (linkNames self ! j) then imgFormat else ''asc''))"
      by blast
    then have "content cell = expectedPlots self ! j @ CHR ''.'' #
                    (if str_in ''timeseries'' (linkNames self ! j) then imgFormat else ''asc'')"
      by (simp add: content_def)
    with s have "suffix '' - Error'' (expectedPlots self ! j @ CHR ''.'' #
                    (if str_in ''timeseries'' (linkNames self ! j) then imgFormat else ''asc''))"
      by simp
    then have "suffix '' - Error''
        (if str_in ''timeseries'' (linkNames self ! j) then imgFormat else ''asc'')"
      by (rule suffix_past_char) simp
    then show ?thesis
      by (cases "str_in ''timeseries'' (linkNames self ! j)") (simp_all add: suffix_to_prefix)
  qed
  with no show False
    by contradiction
next
  assume "\<forall>plot_file\<in>set (expectedPlots wb). \<exists>msg.
          checkFile (workdir @ ''/'' @ plot_file @ ''.'' @ imgFormat) ''read'' = Inr (True, msg)"
  then show "WesternBoundary_plot_table wb checkFile workdir imgFormat = Inr [expectedPlots wb]"
    unfolding WesternBoundary_plot_table_def by (simp add: plots_present)
qed

theorem all_files_present_witness:
  "CplLog_plot_table CplLog_init
     (\<lambda>path mode. Inr (path = ''/w/cplheatbudget.png'' \<or> path = ''/w/cplfwbudget.asc''
                          \<or> path = ''/w/DWBC.png'', [])) ''/w'' ''png''
     = Inr [[(0, ''label'', ''Heat:''), (1, ''timeseries'', ''cplheatbudget.png''),
             (2, ''table'', ''cplfwbudget.asc'')],
            [(0, ''label'', ''Freshwater:''), (1, ''timeseries'', ''cplheatbudget.png''),
             (2, ''table'', ''cplfwbudget.asc'')]]
   \<and> (\<exists>msg. ((\<lambda>path mode. Inr (path = ''/w/cplheatbudget.png'' \<or> path = ''/w/cplfwbudget.asc''
                          \<or> path = ''/w/DWBC.png'', [])) :: checkFile)
          (''/w'' @ ''/'' @ expectedPlots CplLog_init ! 0 @ ''.'' @
             (if str_in ''timeseries'' (linkNames CplLog_init ! 0) then ''png'' else ''asc'')) ''read''
        = Inr (True, msg))
   \<and> (\<exists>msg. ((\<lambda>path mode. Inr (path = ''/w/cplheatbudget.png'' \<or> path = ''/w/cplfwbudget.asc''
                          \<or> path = ''/w/DWBC.png'', [])) :: checkFile)
          (''/w'' @ ''/'' @ expectedPlots CplLog_init ! 1 @ ''.'' @
             (if str_in ''timeseries'' (linkNames CplLog_init ! 1) then ''png'' else ''asc'')) ''read''
        = Inr (True, msg))
   \<and> ((\<lambda>path mode. Inr (path = ''/w/cplheatbudget.png'' \<or> path = ''/w/cplfwbudget.asc''
                          \<or> path = ''/w/DWBC.png'', [])) :: checkFile) ''/w/cplfwbudget.png'' ''read''
       = Inr (False, [])
   \<and> (\<exists>j<2. (2, ''table'', ''cplfwbudget.asc'')
         = (int j + 1, linkNames CplLog_init ! j,
            expectedPlots CplLog_init ! j @ ''.'' @
              (if str_in ''timeseries'' (linkNames CplLog_init ! j) then ''png'' else ''asc'')))
   \<and> \<not> suffix '' - Error'' ''png''
   \<and> \<not> suffix '' - Error'' (content (1, ''timeseries'', ''cplheatbudget.png''))
   \<and> (\<exists>msg. ((\<lambda>path mode. Inr (path = ''/w/cplheatbudget.png'' \<or> path = ''/w/cplfwbudget.asc''
                          \<or> path = ''/w/DWBC.png'', [])) :: checkFile)
          (''/w'' @ ''/'' @ ''DWBC'' @ ''.'' @ ''png'') ''read'' = Inr (True, msg))
   \<and> WesternBoundary_plot_table WesternBoundary_init
        (\<lambda>path mode. Inr (path = ''/w/cplheatbudget.png'' \<or> path = ''/w/cplfwbudget.asc''
                          \<or> path = ''/w/DWBC.png'', [])) ''/w'' ''png''
       = Inr [expectedPlots WesternBoundary_init]"
proof -
  let ?chk = "\<lambda>path mode. Inr (path = ''/w/cplheatbudget.png'' \<or> path = ''/w/cplfwbudget.asc''
                          \<or> path = ''/w/DWBC.png'', []) :: exception + bool \<times> string"
  let ?table = "[[(0::int, ''label'', ''Heat:''), (1, ''timeseries'', ''cplheatbudget.png''),
             (2, ''table'', ''cplfwbudget.asc'')],
            [(0, ''label'', ''Freshwater:''), (1, ''timeseries'', ''cplheatbudget.png''),
             (2, ''table'', ''cplfwbudget.asc'')]]"
  have t: "CplLog_plot_table CplLog_init ?chk ''/w'' ''png'' = Inr ?table"
    by code_simp
  have q0: "\<exists>msg. ?chk (''/w'' @ ''/'' @ expectedPlots CplLog_init ! 0 @ ''.'' @
             (if str_in ''timeseries'' (linkNames CplLog_init ! 0) then ''png'' else ''asc'')) ''read''
        = Inr (True, msg)"
    by (simp add: CplLog_init_def)
  have q1: "\<exists>msg. ?chk (''/w'' @ ''/'' @ expectedPlots CplLog_init ! 1 @ ''.'' @
             (if str_in ''timeseries'' (linkNames CplLog_init ! 1) then ''png'' else ''asc'')) ''read''
        = Inr (True, msg)"
    by (simp add: CplLog_init_def)
  have other: "?chk ''/w/cplfwbudget.png'' ''read'' = Inr (False, [])"
    by simp
  from q0 q1 have q: "\<forall>j<2. j < length (linkNames CplLog_init) \<and>
          j < length (expectedPlots CplLog_init) \<and>
          (str_in ''timeseries'' (linkNames CplLog_init ! j) \<or> str_in ''table'' (linkNames CplLog_init ! j))
        \<longrightarrow> (\<exists>msg. ?chk (''/w'' @ ''/'' @ expectedPlots CplLog_init ! j @ ''.'' @
                  (if str_in ''timeseries'' (linkNames CplLog_init ! j) then ''png'' else ''asc'')) ''read''
                = Inr (True, msg))"
  proof (intro allI impI)
    fix j :: nat
    assume "j < 2"
    then have "j = 0 \<or> j = 1"
      by auto
    then show "\<exists>msg. ?chk (''/w'' @ ''/'' @ expectedPlots CplLog_init ! j @ ''.'' @
                  (if str_in ''timeseries'' (linkNames CplLog_init ! j) then ''png'' else ''asc'')) ''read''
                = Inr (True, msg)"
    proof
      assume "j = 0"
      with q0 show ?thesis by simp
    next
      assume "j = 1"
      with q1 show ?thesis by simp
    qed
  qed
  have no: "\<not> suffix '' - Error'' ''png''"
    by (simp add: suffix_to_prefix)
  have w: "\<exists>msg. ?chk (''/w'' @ ''/'' @ ''DWBC'' @ ''.'' @ ''png'') ''read'' = Inr (True, msg)"
    by simp
  then have w': "\<forall>plot_file\<in>set (expectedPlots WesternBoundary_init). \<exists>msg.
          ?chk (''/w'' @ ''/'' @ plot_file @ ''.'' @ ''png'') ''read'' = Inr (True, msg)"
    by (simp add: WesternBoundary_init_def)
  note all = all_files_present
    [where self = CplLog_init and checkFile = ?chk and workdir = "''/w''"
       and imgFormat = "''png''" and wb = WesternBoundary_init and table = ?table]
  note cpl = all [THEN conjunct1, rule_format, OF conjI, OF t q]
  from cpl [THEN conjunct1, rule_format,
      of "[(0, ''label'', ''Heat:''), (1, ''timeseries'', ''cplheatbudget.png''),
             (2, ''table'', ''cplfwbudget.asc'')]" "(2, ''table'', ''cplfwbudget.asc'')"]
  have first: "\<exists>j<2. (2, ''table'', ''cplfwbudget.asc'')
         = (int j + 1, linkNames CplLog_init ! j,
            expectedPlots CplLog_init ! j @ ''.'' @
              (if str_in ''timeseries'' (linkNames CplLog_init ! j) then ''png'' else ''asc''))"
    by simp
  from cpl [THEN conjunct2, rule_format, OF no,
      of "[(0, ''label'', ''Heat:''), (1, ''timeseries'', ''cplheatbudget.png''),
             (2, ''table'', ''cplfwbudget.asc'')]" "(1, ''timeseries'', ''cplheatbudget.png'')"]
  have second: "\<not> suffix '' - Error'' (content (1, ''timeseries'', ''cplheatbudget.png''))"
    by simp
  from all [THEN conjunct2, THEN mp, OF w']
  have third: "WesternBoundary_plot_table WesternBoundary_init ?chk ''/w'' ''png''
       = Inr [expectedPlots WesternBoundary_init]" .
  from t q0 q1 other first no second w third show ?thesis
    by (intro conjI)
qed


section \<open>The coupler-log scenario\<close>

text \<open>
  Claim C5 gives the scenario of the two coupler-log plots with \<^verbatim>\<open>cplheatbudget.png\<close>
  present and \<^verbatim>\<open>cplfwbudget.asc\<close> absent, and expects \<^verbatim>\<open>cplfwbudget.asc - Error\<close> at
  index 1 of row 1. With the link names of \<^verbatim>\<open>CplLog.__init__\<close> both rows hold
  \<^verbatim>\<open>cplheatbudget.png\<close> at index 1 and the error text at index 2. With the link name
  spelled \<^verbatim>\<open>image\<close>, as the claim writes the column kind, the first column is skipped
  (neither \<^verbatim>\<open>timeseries\<close> nor \<^verbatim>\<open>table\<close> occurs in it) and row 0 holds the error text at
  index 1.
\<close>

theorem scenario_cells_counterexample:
  "CplLog_plot_table CplLog_init (\<lambda>path mode. Inr (path = ''/w/cplheatbudget.png'', [])) ''/w'' ''png''
     = Inr [[(0, ''label'', ''Heat:''), (1, ''timeseries'', ''cplheatbudget.png''),
             (2, ''table'', ''cplfwbudget.asc - Error'')],
            [(0, ''label'', ''Freshwater:''), (1, ''timeseries'', ''cplheatbudget.png''),
             (2, ''table'', ''cplfwbudget.asc - Error'')]]
   \<and> content ([(0, ''label'', ''Freshwater:''), (1, ''timeseries'', ''cplheatbudget.png''),
             (2, ''table'', ''cplfwbudget.asc - Error'')] ! 1) \<noteq> ''cplfwbudget.asc - Error''
   \<and> CplLog_plot_table (CplLog_init\<lparr>linkNames := [''image'', ''table'']\<rparr>)
       (\<lambda>path mode. Inr (path = ''/w/cplheatbudget.png'', [])) ''/w'' ''png''
     = Inr [[(0, ''label'', ''Heat:''), (2, ''table'', ''cplfwbudget.asc - Error'')],
            [(0, ''label'', ''Freshwater:''), (2, ''table'', ''cplfwbudget.asc - Error'')]]
   \<and> content ([(0, ''label'', ''Heat:''), (2, ''table'', ''cplfwbudget.asc - Error'')] ! 1)
       \<noteq> ''cplheatbudget.png''"
proof -
  have "CplLog_plot_table CplLog_init
          (\<lambda>path mode. Inr (path = ''/w/cplheatbudget.png'', [])) ''/w'' ''png''
     = Inr [[(0, ''label'', ''Heat:''), (1, ''timeseries'', ''cplheatbudget.png''),
             (2, ''table'', ''cplfwbudget.asc - Error'')],
            [(0, ''label'', ''Freshwater:''), (1, ''timeseries'', ''cplheatbudget.png''),
             (2, ''table'', ''cplfwbudget.asc - Error'')]]"
    by code_simp
  moreover have
    "content ([(0, ''label'', ''Freshwater:''), (1, ''timeseries'', ''cplheatbudget.png''),
             (2, ''table'', ''cplfwbudget.asc - Error'')] ! 1) \<noteq> ''cplfwbudget.asc - Error''"
    by (simp add: content_def)
  moreover have "CplLog_plot_table (CplLog_init\<lparr>linkNames := [''image'', ''table'']\<rparr>)
       (\<lambda>path mode. Inr (path = ''/w/cplheatbudget.png'', [])) ''/w'' ''png''
     = Inr [[(0, ''label'', ''Heat:''), (2, ''table'', ''cplfwbudget.asc - Error'')],
            [(0, ''label'', ''Freshwater:''), (2, ''table'', ''cplfwbudget.asc - Error'')]]"
    by code_simp
  moreover have
    "content ([(0, ''label'', ''Heat:''), (2, ''table'', ''cplfwbudget.asc - Error'')] ! 1)
       \<noteq> ''cplheatbudget.png''"
    by (simp add: content_def)
  ultimately show ?thesis
    by (intro conjI)
qed

text \<open>
  Claim C5, as amended: for \<^verbatim>\<open>CplLog\<close> as \<^verbatim>\<open>__init__\<close> builds it (labels \<^verbatim>\<open>Heat\<close>,
  \<^verbatim>\<open>Freshwater\<close>; expected plots \<^verbatim>\<open>cplheatbudget\<close>, \<^verbatim>\<open>cplfwbudget\<close>; link names
  \<^verbatim>\<open>timeseries\<close>, \<^verbatim>\<open>table\<close>), image format \<^verbatim>\<open>png\<close>, and a checker for which
  \<^verbatim>\<open>cplheatbudget.png\<close> exists in the working directory and \<^verbatim>\<open>cplfwbudget.asc\<close> does not,
  the table has two rows; the cell at index 1 of row 0 holds \<^verbatim>\<open>cplheatbudget.png\<close> and
  the cell at index 2 of row 1 holds \<^verbatim>\<open>cplfwbudget.asc - Error\<close>.
\<close>

theorem scenario_table:
  assumes "checkFile (workdir @ ''/cplheatbudget.png'') ''read'' = Inr (True, m1)"
    and "checkFile (workdir @ ''/cplfwbudget.asc'') ''read'' = Inr (False, m2)"
  shows "\<exists>table. CplLog_plot_table CplLog_init checkFile workdir ''png'' = Inr table \<and>
     length table = 2 \<and>
     content (table ! 0 ! 1) = ''cplheatbudget.png'' \<and>
     content (table ! 1 ! 2) = ''cplfwbudget.asc - Error''"
proof -
  have c0: "column CplLog_init checkFile workdir ''png'' 0 []
      = Inr [(1, ''timeseries'', ''cplheatbudget.png'')]"
    using assms(1) by (simp add: column_def getitem_def CplLog_init_def)
  have c1: "column CplLog_init checkFile workdir ''png'' 1 []
      = Inr [(2, ''table'', ''cplfwbudget.asc - Error'')]"
    using assms(2) by (simp add: column_def getitem_def CplLog_init_def)
  have "CplLog_plot_table CplLog_init checkFile workdir ''png''
     = Inr [[(0, ''label'', ''Heat:''), (1, ''timeseries'', ''cplheatbudget.png''),
             (2, ''table'', ''cplfwbudget.asc - Error'')],
            [(0, ''label'', ''Freshwater:''), (1, ''timeseries'', ''cplheatbudget.png''),
             (2, ''table'', ''cplfwbudget.asc - Error'')]]"
    unfolding plot_table_eq columns_two c0 c1 by (simp add: CplLog_init_def)
  then show ?thesis
    by (simp add: content_def)
qed

theorem scenario_table_witness:
  "(\<lambda>path mode. Inr (path = ''/w/cplheatbudget.png'', ''checked'')) (''/w'' @ ''/cplheatbudget.png'') ''read''
     = Inr (True, ''checked'')
   \<and> (\<lambda>path mode. Inr (path = ''/w/cplheatbudget.png'', ''checked'')) (''/w'' @ ''/cplfwbudget.asc'') ''read''
     = Inr (False, ''checked'')
   \<and> (\<exists>table. CplLog_plot_table CplLog_init
          (\<lambda>path mode. Inr (path = ''/w/cplheatbudget.png'', ''checked'')) ''/w'' ''png'' = Inr table \<and>
        length table = 2 \<and>
        content (table ! 0 ! 1) = ''cplheatbudget.png'' \<and>
        content (table ! 1 ! 2) = ''cplfwbudget.asc - Error'')"
proof -
  have h1: "(\<lambda>path mode. Inr (path = ''/w/cplheatbudget.png'', ''checked''))
              (''/w'' @ ''/cplheatbudget.png'') ''read'' = Inr (True, ''checked'')"
    by simp
  have h2: "(\<lambda>path mode. Inr (path = ''/w/cplheatbudget.png'', ''checked''))
              (''/w'' @ ''/cplfwbudget.asc'') ''read'' = Inr (False, ''checked'')"
    by simp
  from h1 h2 scenario_table [of "\<lambda>path mode. Inr (path = ''/w/cplheatbudget.png'', ''checked'')",
      OF h1 h2]
  show ?thesis
    by (intro conjI)
qed


section \<open>Missing files, missing artifacts and checker faults\<close>

text \<open>
  Claim C6 says that for every well-formed spec table construction never aborts. A spec
  with one label, one artifact and one link name is enough to abort it: the inner loop
  runs twice whatever the spec holds, and its second pass reads \<^verbatim>\<open>self._linkNames[1]\<close>.
\<close>

theorem one_column_spec_counterexample:
  "CplLog_plot_table
     (CplLog_init\<lparr>expectedPlots := [''cplheatbudget''], labels := [''Heat''],
        linkNames := [''timeseries'']\<rparr>)
     (\<lambda>path mode. Inr (False, [])) ''/w'' ''png''
   = Inl IndexError"
  by code_simp

text \<open>
  Claim C6, as amended: for every spec with at least two link names and at least two
  expected plots, and every \<^verbatim>\<open>fileExists\<close> function, \<^verbatim>\<open>CplLog\<close> returns the full table of
  \<^verbatim>\<open>len(labels)\<close> rows; compared with the table built when every file exists, it has the
  same shape, and each cell is either the same or has the same column index and link
  name and the same text followed by \<^verbatim>\<open>" - Error"\<close>. \<^verbatim>\<open>WesternBoundary\<close> returns its one
  row for every list of expected plots and every \<^verbatim>\<open>fileExists\<close> function, each cell being
  the plot name or the plot name followed by \<^verbatim>\<open>" - Error"\<close>.
\<close>

theorem missing_files_never_abort:
  "(2 \<le> length (linkNames self) \<and> 2 \<le> length (expectedPlots self) \<longrightarrow>
      (\<exists>table full.
         CplLog_plot_table self (\<lambda>path mode. Inr (fileExists path, err_msg path)) workdir imgFormat
           = Inr table \<and>
         CplLog_plot_table self (\<lambda>path mode. Inr (True, err_msg path)) workdir imgFormat
           = Inr full \<and>
         length table = length (labels self) \<and> length full = length (labels self) \<and>
         (\<forall>i<length table.
            length (table ! i) = length (full ! i) \<and>
            (\<forall>k<length (table ! i).
               table ! i ! k = full ! i ! k \<or>
               table ! i ! k = (fst (full ! i ! k), fst (snd (full ! i ! k)),
                                content (full ! i ! k) @ '' - Error'')))))
   \<and> (\<exists>cells.
        WesternBoundary_plot_table wb (\<lambda>path mode. Inr (fileExists path, err_msg path)) workdir imgFormat
          = Inr [cells] \<and>
        length cells = length (expectedPlots wb) \<and>
        (\<forall>k<length cells.
           cells ! k = expectedPlots wb ! k \<or> cells ! k = expectedPlots wb ! k @ '' - Error''))"
proof (intro conjI impI; (elim conjE)?)
  assume ln: "2 \<le> length (linkNames self)" and pl: "2 \<le> length (expectedPlots self)"
  define Rel :: "plot_tuple \<Rightarrow> plot_tuple \<Rightarrow> bool" where
    "Rel = (\<lambda>a b. a = b \<or> a = (fst b, fst (snd b), content b @ '' - Error''))"
  let ?chk = "\<lambda>path mode. Inr (fileExists path, err_msg path) :: exception + bool \<times> string"
  let ?all = "\<lambda>path mode. Inr (True, err_msg path) :: exception + bool \<times> string"
  have col: "\<exists>c c'. column self ?chk workdir imgFormat j [] = Inr c \<and>
               column self ?all workdir imgFormat j [] = Inr c' \<and> list_all2 Rel c c'"
    if "j < 2" for j
    using that ln pl unfolding column_answer Rel_def
    by (simp add: content_def Let_def)
  from col [of 0] obtain c0 c0' where
    c0: "column self ?chk workdir imgFormat 0 [] = Inr c0"
      "column self ?all workdir imgFormat 0 [] = Inr c0'" "list_all2 Rel c0 c0'"
    by auto
  from col [of 1] obtain c1 c1' where
    c1: "column self ?chk workdir imgFormat 1 [] = Inr c1"
      "column self ?all workdir imgFormat 1 [] = Inr c1'" "list_all2 Rel c1 c1'"
    by auto
  define table where "table = map (\<lambda>l. (0::int, ''label'', l @ '':'') # c0 @ c1) (labels self)"
  define full where "full = map (\<lambda>l. (0::int, ''label'', l @ '':'') # c0' @ c1') (labels self)"
  have t: "CplLog_plot_table self ?chk workdir imgFormat = Inr table"
    unfolding plot_table_eq columns_two c0 c1 table_def by simp
  have f: "CplLog_plot_table self ?all workdir imgFormat = Inr full"
    unfolding plot_table_eq columns_two c0 c1 full_def by simp
  have rel: "list_all2 Rel (table ! i) (full ! i)" if "i < length (labels self)" for i
    using that c0(3) c1(3) unfolding table_def full_def
    by (simp add: list_all2_appendI Rel_def)
  have "length (table ! i) = length (full ! i) \<and>
            (\<forall>k<length (table ! i).
               table ! i ! k = full ! i ! k \<or>
               table ! i ! k = (fst (full ! i ! k), fst (snd (full ! i ! k)),
                                content (full ! i ! k) @ '' - Error''))"
    if "i < length table" for i
  proof -
    from that have "i < length (labels self)" by (simp add: table_def)
    from rel [OF this] show ?thesis
      unfolding list_all2_conv_all_nth Rel_def by simp
  qed
  with t f show "\<exists>table full.
         CplLog_plot_table self ?chk workdir imgFormat = Inr table \<and>
         CplLog_plot_table self ?all workdir imgFormat = Inr full \<and>
         length table = length (labels self) \<and> length full = length (labels self) \<and>
         (\<forall>i<length table.
            length (table ! i) = length (full ! i) \<and>
            (\<forall>k<length (table ! i).
               table ! i ! k = full ! i ! k \<or>
               table ! i ! k = (fst (full ! i ! k), fst (snd (full ! i ! k)),
                                content (full ! i ! k) @ '' - Error'')))"
    by (intro exI [of _ table] exI [of _ full]) (simp add: table_def full_def)
next
  show "\<exists>cells.
        WesternBoundary_plot_table wb (\<lambda>path mode. Inr (fileExists path, err_msg path)) workdir imgFormat
          = Inr [cells] \<and>
        length cells = length (expectedPlots wb) \<and>
        (\<forall>k<length cells.
           cells ! k = expectedPlots wb ! k \<or> cells ! k = expectedPlots wb ! k @ '' - Error'')"
    unfolding WesternBoundary_plot_table_def plots_answer by simp
qed

theorem missing_files_never_abort_witness:
  "2 \<le> length (linkNames CplLog_init) \<and> 2 \<le> length (expectedPlots CplLog_init)
   \<and> (\<exists>table full.
         CplLog_plot_table CplLog_init
           (\<lambda>path mode. Inr (path = ''/w/cplheatbudget.png'', [])) ''/w'' ''png'' = Inr table \<and>
         CplLog_plot_table CplLog_init (\<lambda>path mode. Inr (True, [])) ''/w'' ''png'' = Inr full \<and>
         length table = length (labels CplLog_init) \<and> length full = length (labels CplLog_init) \<and>
         (\<forall>i<length table.
            length (table ! i) = length (full ! i) \<and>
            (\<forall>k<length (table ! i).
               table ! i ! k = full ! i ! k \<or>
               table ! i ! k = (fst (full ! i ! k), fst (snd (full ! i ! k)),
                                content (full ! i ! k) @ '' - Error''))))
   \<and> (\<exists>cells.
        WesternBoundary_plot_table WesternBoundary_init
          (\<lambda>path mode. Inr (path = ''/w/cplheatbudget.png'', [])) ''/w'' ''png'' = Inr [cells] \<and>
        length cells = length (expectedPlots WesternBoundary_init) \<and>
        (\<forall>k<length cells.
           cells ! k = expectedPlots WesternBoundary_init ! k \<or>
           cells ! k = expectedPlots WesternBoundary_init ! k @ '' - Error''))"
proof -
  have h: "2 \<le> length (linkNames CplLog_init)" "2 \<le> length (expectedPlots CplLog_init)"
    by (simp_all add: CplLog_init_def)
  note both = missing_files_never_abort
    [where self = CplLog_init and fileExists = "\<lambda>path. path = ''/w/cplheatbudget.png''"
       and err_msg = "\<lambda>path. []" and workdir = "''/w''" and imgFormat = "''png''"
       and wb = WesternBoundary_init]
  from both [THEN conjunct1, rule_format, OF conjI, OF h] both [THEN conjunct2] h
  show ?thesis
    by (intro conjI)
qed

text \<open>
  Claim C7 says that every spec with fewer artifacts than column kinds makes the builder
  raise. With two artifacts and three link names the third link name is never visited and
  the table of two columns is returned; with no labels nothing is indexed at all; and a
  link name with neither \<^verbatim>\<open>timeseries\<close> nor \<^verbatim>\<open>table\<close> in it is skipped before
  \<^verbatim>\<open>plot_list[j]\<close> is read.
\<close>

theorem fewer_artifacts_counterexample:
  "CplLog_plot_table (CplLog_init\<lparr>linkNames := [''timeseries'', ''table'', ''table'']\<rparr>)
     (\<lambda>path mode. Inr (True, [])) ''/w'' ''png''
   = Inr [[(0, ''label'', ''Heat:''), (1, ''timeseries'', ''cplheatbudget.png''),
           (2, ''table'', ''cplfwbudget.asc'')],
          [(0, ''label'', ''Freshwater:''), (1, ''timeseries'', ''cplheatbudget.png''),
           (2, ''table'', ''cplfwbudget.asc'')]]
   \<and> length (expectedPlots (CplLog_init\<lparr>linkNames := [''timeseries'', ''table'', ''table'']\<rparr>))
     < length (linkNames (CplLog_init\<lparr>linkNames := [''timeseries'', ''table'', ''table'']\<rparr>))
   \<and> CplLog_plot_table (CplLog_init\<lparr>expectedPlots := [], labels := []\<rparr>)
       (\<lambda>path mode. Inr (True, [])) ''/w'' ''png''
     = Inr []
   \<and> CplLog_plot_table (CplLog_init\<lparr>expectedPlots := [], linkNames := [''image'', ''text'']\<rparr>)
       (\<lambda>path mode. Inr (True, [])) ''/w'' ''png''
     = Inr [[(0, ''label'', ''Heat:'')], [(0, ''label'', ''Freshwater:'')]]"
proof -
  have "CplLog_plot_table (CplLog_init\<lparr>linkNames := [''timeseries'', ''table'', ''table'']\<rparr>)
     (\<lambda>path mode. Inr (True, [])) ''/w'' ''png''
   = Inr [[(0, ''label'', ''Heat:''), (1, ''timeseries'', ''cplheatbudget.png''),
           (2, ''table'', ''cplfwbudget.asc'')],
          [(0, ''label'', ''Freshwater:''), (1, ''timeseries'', ''cplheatbudget.png''),
           (2, ''table'', ''cplfwbudget.asc'')]]"
    by code_simp
  moreover have
    "length (expectedPlots (CplLog_init\<lparr>linkNames := [''timeseries'', ''table'', ''table'']\<rparr>))
     < length (linkNames (CplLog_init\<lparr>linkNames := [''timeseries'', ''table'', ''table'']\<rparr>))"
    by (simp add: CplLog_init_def)
  moreover have "CplLog_plot_table (CplLog_init\<lparr>expectedPlots := [], labels := []\<rparr>)
       (\<lambda>path mode. Inr (True, [])) ''/w'' ''png''
     = Inr []"
    by code_simp
  moreover have
    "CplLog_plot_table (CplLog_init\<lparr>expectedPlots := [], linkNames := [''image'', ''text'']\<rparr>)
       (\<lambda>path mode. Inr (True, [])) ''/w'' ''png''
     = Inr [[(0, ''label'', ''Heat:'')], [(0, ''label'', ''Freshwater:'')]]"
    by code_simp
  ultimately show ?thesis
    by (intro conjI)
qed

text \<open>
  Claim C7, as amended: for every spec with at least one label, if for one of the two
  columns the builder visits (\<open>j < 2\<close>) the link name contains \<^verbatim>\<open>timeseries\<close> or
  \<^verbatim>\<open>table\<close> and the list of expected plots has no entry \<open>j\<close>, then for every
  \<^verbatim>\<open>fileExists\<close> function table construction is aborted by \<^verbatim>\<open>IndexError\<close>: no shorter table
  is returned.
\<close>

theorem missing_artifact_raises_IndexError:
  assumes "labels self \<noteq> []" and "j < 2" and "j < length (linkNames self)"
    and "length (expectedPlots self) \<le> j"
    and "str_in ''timeseries'' (linkNames self ! j) \<or> str_in ''table'' (linkNames self ! j)"
  shows "CplLog_plot_table self (\<lambda>path mode. Inr (fileExists path, err_msg path)) workdir imgFormat
     = Inl IndexError"
proof -
  have cj: "column self (\<lambda>path mode. Inr (fileExists path, err_msg path)) workdir imgFormat j []
      = Inl IndexError"
    using assms(3,4,5) unfolding column_answer by simp
  from assms(2) have "j = 0 \<or> j = 1" by auto
  then show ?thesis
  proof
    assume "j = 0"
    with cj assms(1) show ?thesis
      unfolding plot_table_eq columns_two by simp
  next
    assume j: "j = 1"
    have "column self (\<lambda>path mode. Inr (fileExists path, err_msg path)) workdir imgFormat 0 []
        = Inl IndexError \<or>
      (\<exists>cs. column self (\<lambda>path mode. Inr (fileExists path, err_msg path)) workdir imgFormat 0 []
        = Inr cs)"
      unfolding column_answer by simp
    with cj j assms(1) show ?thesis
      unfolding plot_table_eq columns_two by auto
  qed
qed

theorem missing_artifact_raises_IndexError_witness:
  "labels (CplLog_init\<lparr>expectedPlots := [''cplheatbudget'']\<rparr>) \<noteq> []
   \<and> (1::nat) < 2
   \<and> 1 < length (linkNames (CplLog_init\<lparr>expectedPlots := [''cplheatbudget'']\<rparr>))
   \<and> length (expectedPlots (CplLog_init\<lparr>expectedPlots := [''cplheatbudget'']\<rparr>)) \<le> 1
   \<and> str_in ''table'' (linkNames (CplLog_init\<lparr>expectedPlots := [''cplheatbudget'']\<rparr>) ! 1)
   \<and> CplLog_plot_table (CplLog_init\<lparr>expectedPlots := [''cplheatbudget'']\<rparr>)
        (\<lambda>path mode. Inr (True, [])) ''/w'' ''png''
     = Inl IndexError"
proof -
  have h1: "labels (CplLog_init\<lparr>expectedPlots := [''cplheatbudget'']\<rparr>) \<noteq> []"
    by (simp add: CplLog_init_def)
  have h2: "(1::nat) < 2"
    by simp
  have h3: "1 < length (linkNames (CplLog_init\<lparr>expectedPlots := [''cplheatbudget'']\<rparr>))"
    by (simp add: CplLog_init_def)
  have h4: "length (expectedPlots (CplLog_init\<lparr>expectedPlots := [''cplheatbudget'']\<rparr>)) \<le> 1"
    by (simp add: CplLog_init_def)
  have h5: "str_in ''table'' (linkNames (CplLog_init\<lparr>expectedPlots := [''cplheatbudget'']\<rparr>) ! 1)"
    by (simp add: CplLog_init_def)
  from h5 have h5': "str_in ''timeseries'' (linkNames (CplLog_init\<lparr>expectedPlots := [''cplheatbudget'']\<rparr>) ! 1)
      \<or> str_in ''table'' (linkNames (CplLog_init\<lparr>expectedPlots := [''cplheatbudget'']\<rparr>) ! 1)"
    by (rule disjI2)
  from h1 h2 h3 h4 h5
    missing_artifact_raises_IndexError [OF h1 h2 h3 h4 h5', of "\<lambda>path. True" "\<lambda>path. []" "''/w''" "''png''"]
  show ?thesis
    by (intro conjI)
qed

text \<open>
  Claim C8: a fault that \<^verbatim>\<open>cesmEnvLib.checkFile\<close> raises as an exception, instead of
  answering \<^verbatim>\<open>rc = False\<close> as it does for a file that is not there, comes out of both
  builders unchanged, and no table with an error cell in its place is returned. For \<^verbatim>\<open>CplLog\<close>: if
  there is a label, the passes of the loop body before column \<open>j\<close> finish, and the
  check of the candidate file of column \<open>j\<close> raises, the call ends with that exception.
  For \<^verbatim>\<open>WesternBoundary\<close>: if the checks of the plots before \<^verbatim>\<open>plot_file\<close> return and the
  check of \<^verbatim>\<open>plot_file\<close> raises, the call ends with that exception.
\<close>

theorem checker_fault_propagates:
  "(labels self \<noteq> [] \<and> j < 2 \<and> j < length (linkNames self) \<and> j < length (expectedPlots self) \<and>
      (str_in ''timeseries'' (linkNames self ! j) \<or> str_in ''table'' (linkNames self ! j)) \<and>
      (\<forall>k<j. \<exists>cs. column self checkFile workdir imgFormat k [] = Inr cs) \<and>
      checkFile (workdir @ ''/'' @ expectedPlots self ! j @ ''.'' @
          (if str_in ''timeseries'' (linkNames self ! j) then imgFormat else ''asc'')) ''read''
        = Inl fault
    \<longrightarrow> CplLog_plot_table self checkFile workdir imgFormat = Inl fault)
   \<and> (expectedPlots wb = before @ plot_file # rest \<and>
      (\<forall>p\<in>set before. \<exists>rc msg.
          checkFile (workdir @ ''/'' @ p @ ''.'' @ imgFormat) ''read'' = Inr (rc, msg)) \<and>
      checkFile (workdir @ ''/'' @ plot_file @ ''.'' @ imgFormat) ''read'' = Inl fault
    \<longrightarrow> WesternBoundary_plot_table wb checkFile workdir imgFormat = Inl fault)"
proof (intro conjI impI; elim conjE)
  assume l: "labels self \<noteq> []" and j: "j < 2"
    and jl: "j < length (linkNames self)" and jp: "j < length (expectedPlots self)"
    and known: "str_in ''timeseries'' (linkNames self ! j) \<or> str_in ''table'' (linkNames self ! j)"
    and earlier: "\<forall>k<j. \<exists>cs. column self checkFile workdir imgFormat k [] = Inr cs"
    and chk: "checkFile (workdir @ ''/'' @ expectedPlots self ! j @ ''.'' @
          (if str_in ''timeseries'' (linkNames self ! j) then imgFormat else ''asc'')) ''read''
        = Inl fault"
  have cj: "column self checkFile workdir imgFormat j [] = Inl fault"
  proof (cases "str_in ''timeseries'' (linkNames self ! j)")
    case True
    with jl jp chk show ?thesis
      by (simp add: column_def getitem_def)
  next
    case False
    with jl jp chk known show ?thesis
      by (simp add: column_def getitem_def)
  qed
  from j have "j = 0 \<or> j = 1" by auto
  then show "CplLog_plot_table self checkFile workdir imgFormat = Inl fault"
  proof
    assume "j = 0"
    with cj l show ?thesis
      unfolding plot_table_eq columns_two by simp
  next
    assume j1: "j = 1"
    with earlier obtain cs where "column self checkFile workdir imgFormat 0 [] = Inr cs"
      by auto
    with cj j1 l show ?thesis
      unfolding plot_table_eq columns_two by simp
  qed
next
  assume "expectedPlots wb = before @ plot_file # rest"
    and "\<forall>p\<in>set before. \<exists>rc msg.
          checkFile (workdir @ ''/'' @ p @ ''.'' @ imgFormat) ''read'' = Inr (rc, msg)"
    and "checkFile (workdir @ ''/'' @ plot_file @ ''.'' @ imgFormat) ''read'' = Inl fault"
  then show "WesternBoundary_plot_table wb checkFile workdir imgFormat = Inl fault"
    unfolding WesternBoundary_plot_table_def
    by (simp add: plots_fault)
qed

theorem checker_fault_propagates_witness:
  "labels CplLog_init \<noteq> [] \<and> (1::nat) < 2
   \<and> 1 < length (linkNames CplLog_init) \<and> 1 < length (expectedPlots CplLog_init)
   \<and> str_in ''table'' (linkNames CplLog_init ! 1)
   \<and> (\<exists>cs. column CplLog_init
         (\<lambda>path mode. if path = ''/w/cplfwbudget.asc'' \<or> path = ''/w/DWBC.png''
                       then Inl (Raised ''Permission denied'') else Inr (True, []))
         ''/w'' ''png'' 0 [] = Inr cs)
   \<and> (\<lambda>path mode. if path = ''/w/cplfwbudget.asc'' \<or> path = ''/w/DWBC.png''
                       then Inl (Raised ''Permission denied'') else Inr (True, []))
        (''/w'' @ ''/'' @ expectedPlots CplLog_init ! 1 @ ''.'' @
          (if str_in ''timeseries'' (linkNames CplLog_init ! 1) then ''png'' else ''asc'')) ''read''
      = Inl (Raised ''Permission denied'')
   \<and> CplLog_plot_table CplLog_init
        (\<lambda>path mode. if path = ''/w/cplfwbudget.asc'' \<or> path = ''/w/DWBC.png''
                      then Inl (Raised ''Permission denied'') else Inr (True, []))
        ''/w'' ''png''
      = Inl (Raised ''Permission denied'')
   \<and> expectedPlots (WesternBoundary_init\<lparr>expectedPlots := [''MOC'', ''DWBC'']\<rparr>)
       = [''MOC''] @ ''DWBC'' # []
   \<and> (\<exists>rc msg.
        (\<lambda>path mode. if path = ''/w/cplfwbudget.asc'' \<or> path = ''/w/DWBC.png''
                      then Inl (Raised ''Permission denied'') else Inr (True, []))
          (''/w'' @ ''/'' @ ''MOC'' @ ''.'' @ ''png'') ''read'' = Inr (rc, msg))
   \<and> (\<lambda>path mode. if path = ''/w/cplfwbudget.asc'' \<or> path = ''/w/DWBC.png''
                      then Inl (Raised ''Permission denied'') else Inr (True, []))
          (''/w'' @ ''/'' @ ''DWBC'' @ ''.'' @ ''png'') ''read''
      = Inl (Raised ''Permission denied'')
   \<and> WesternBoundary_plot_table (WesternBoundary_init\<lparr>expectedPlots := [''MOC'', ''DWBC'']\<rparr>)
        (\<lambda>path mode. if path = ''/w/cplfwbudget.asc'' \<or> path = ''/w/DWBC.png''
                      then Inl (Raised ''Permission denied'') else Inr (True, []))
        ''/w'' ''png''
      = Inl (Raised ''Permission denied'')"
proof -
  let ?chk = "\<lambda>path mode. if path = ''/w/cplfwbudget.asc'' \<or> path = ''/w/DWBC.png''
                then Inl (Raised ''Permission denied'') else Inr (True, [])"
  have a1: "labels CplLog_init \<noteq> []" and a2: "(1::nat) < 2"
    and a3: "1 < length (linkNames CplLog_init)" and a4: "1 < length (expectedPlots CplLog_init)"
    and a5: "str_in ''table'' (linkNames CplLog_init ! 1)"
    by (simp_all add: CplLog_init_def)
  have a6: "\<exists>cs. column CplLog_init ?chk ''/w'' ''png'' 0 [] = Inr cs"
    by (simp add: column_def getitem_def CplLog_init_def)
  then have a6': "\<forall>k<1. \<exists>cs. column CplLog_init ?chk ''/w'' ''png'' k [] = Inr cs"
    by simp
  have a7: "?chk (''/w'' @ ''/'' @ expectedPlots CplLog_init ! 1 @ ''.'' @
          (if str_in ''timeseries'' (linkNames CplLog_init ! 1) then ''png'' else ''asc'')) ''read''
      = Inl (Raised ''Permission denied'')"
    by (simp add: CplLog_init_def)
  have b1: "expectedPlots (WesternBoundary_init\<lparr>expectedPlots := [''MOC'', ''DWBC'']\<rparr>)
       = [''MOC''] @ ''DWBC'' # []"
    by simp
  have b2: "\<exists>rc msg. ?chk (''/w'' @ ''/'' @ ''MOC'' @ ''.'' @ ''png'') ''read'' = Inr (rc, msg)"
    by auto
  then have b2': "\<forall>p\<in>set [''MOC'']. \<exists>rc msg.
      ?chk (''/w'' @ ''/'' @ p @ ''.'' @ ''png'') ''read'' = Inr (rc, msg)"
    by simp
  have b3: "?chk (''/w'' @ ''/'' @ ''DWBC'' @ ''.'' @ ''png'') ''read''
      = Inl (Raised ''Permission denied'')"
    by simp
  note both = checker_fault_propagates
    [where self = CplLog_init and j = 1 and checkFile = ?chk and workdir = "''/w''"
       and imgFormat = "''png''" and fault = "Raised ''Permission denied''"
       and wb = "WesternBoundary_init\<lparr>expectedPlots := [''MOC'', ''DWBC'']\<rparr>"
       and before = "[''MOC'']" and plot_file = "''DWBC''" and rest = "[]"]
  from a5 have a5': "str_in ''timeseries'' (linkNames CplLog_init ! 1)
      \<or> str_in ''table'' (linkNames CplLog_init ! 1)"
    by (rule disjI2)
  from both [THEN conjunct1] a1 a2 a3 a4 a5' a6' a7
  have first: "CplLog_plot_table CplLog_init ?chk ''/w'' ''png'' = Inl (Raised ''Permission denied'')"
    by blast
  from both [THEN conjunct2] b1 b2' b3
  have second: "WesternBoundary_plot_table (WesternBoundary_init\<lparr>expectedPlots := [''MOC'', ''DWBC'']\<rparr>)
        ?chk ''/w'' ''png'' = Inl (Raised ''Permission denied'')"
    by blast
  from a1 a2 a3 a4 a5 a6 a7 first b1 b2 b3 second show ?thesis
    by (intro conjI)
qed

end
